theory Spec2Isabelle
  imports Main "HOL-Library.Sublist"
begin

section \<open>The meal ordering form: data shared by the variants\<close>

text \<open>
  The repository holds near-duplicate variants of one React Native screen. Three of
  them are modelled here, each under a suffix of its own:
  \<^item> \<open>_v1\<close>: \<^verbatim>\<open>src/App.tsx\<close> lines 1-703 (fixed prices, week picker 1..48);
  \<^item> \<open>_v3\<close>: \<^verbatim>\<open>src/App.tsx\<close> lines 923-2091 (menus.json, week steppers,
    a detailed on-screen summary and a simplified WhatsApp text);
  \<^item> \<open>_p0\<close>: \<^verbatim>\<open>src/unnamed/part_000\<close> (menus.json with per-week prices).

  React state (\<^verbatim>\<open>useState\<close>) is a record; an event handler is a function from the
  state to the new state, together with the alert it raises, if any. Quantities and
  prices are JavaScript numbers that hold integers (the handlers only ever add 1 or -1
  to 0), so they are \<^typ>\<open>int\<close>; doubles are exact on them below \<open>2^53\<close>.
\<close>

datatype DayName = Monday | Tuesday | Wednesday | Thursday | Friday

datatype MealType = Meat | Veg | LowCarb

datatype which = A | B

definition DAYS :: "DayName list" where
  "DAYS = [Monday, Tuesday, Wednesday, Thursday, Friday]"

definition MEAL_TYPES :: "MealType list" where
  "MEAL_TYPES = [Meat, Veg, LowCarb]"

text \<open>\<^verbatim>\<open>Record<DayName, Record<MealType, number>>\<close>: every day and every meal has a cell.\<close>

type_synonym QtyByDay = "DayName \<Rightarrow> MealType \<Rightarrow> int"

definition emptyWeekQuantities :: QtyByDay where
  "emptyWeekQuantities = (\<lambda>d m. 0)"

definition clamp0 :: "int \<Rightarrow> int" where
  "clamp0 n = (if n < 0 then 0 else n)"

text \<open>The updater passed to \<^verbatim>\<open>setQtyA\<close> / \<^verbatim>\<open>setQtyB\<close> in v1 and p0: one cell is replaced.\<close>

definition bump :: "DayName \<Rightarrow> MealType \<Rightarrow> int \<Rightarrow> QtyByDay \<Rightarrow> QtyByDay" where
  "bump day meal delta prev = prev(day := (prev day)(meal := clamp0 (prev day meal + delta)))"

subsection \<open>Week numbers: JavaScript numbers\<close>

text \<open>
  A week number is a \<^verbatim>\<open>number\<close>: the handlers take any number, and \<^verbatim>\<open>clampWeek\<close> asks
  whether its argument is finite. The finite week numbers are integers (they come from
  the initial values 1 and 2, from the picker's list, from the keys of menus.json and
  from adding or subtracting 1).
\<close>

datatype number = Num int | NaN | PosInfinity | NegInfinity

definition Number_isFinite :: "number \<Rightarrow> bool" where
  "Number_isFinite n = (case n of Num _ \<Rightarrow> True | _ \<Rightarrow> False)"

text \<open>\<^verbatim>\<open>a === b\<close> on numbers: \<^verbatim>\<open>NaN\<close> equals nothing, itself included.\<close>

definition strict_eq :: "number \<Rightarrow> number \<Rightarrow> bool" where
  "strict_eq a b = (a \<noteq> NaN \<and> b \<noteq> NaN \<and> a = b)"

text \<open>\<^verbatim>\<open>a < b\<close> on numbers: false as soon as one side is \<^verbatim>\<open>NaN\<close>.\<close>

fun js_less :: "number \<Rightarrow> number \<Rightarrow> bool" where
  "js_less NaN _ = False"
| "js_less _ NaN = False"
| "js_less (Num a) (Num b) = (a < b)"
| "js_less (Num _) PosInfinity = True"
| "js_less (Num _) NegInfinity = False"
| "js_less PosInfinity _ = False"
| "js_less NegInfinity NegInfinity = False"
| "js_less NegInfinity _ = True"

fun Math_max :: "number \<Rightarrow> number \<Rightarrow> number" where
  "Math_max NaN _ = NaN"
| "Math_max _ NaN = NaN"
| "Math_max a b = (if js_less a b then b else a)"

fun Math_min :: "number \<Rightarrow> number \<Rightarrow> number" where
  "Math_min NaN _ = NaN"
| "Math_min _ NaN = NaN"
| "Math_min a b = (if js_less b a then b else a)"

text \<open>\<^verbatim>\<open>a + b\<close> on numbers.\<close>

fun js_plus :: "number \<Rightarrow> number \<Rightarrow> number" where
  "js_plus (Num a) (Num b) = Num (a + b)"
| "js_plus NaN _ = NaN"
| "js_plus _ NaN = NaN"
| "js_plus PosInfinity NegInfinity = NaN"
| "js_plus NegInfinity PosInfinity = NaN"
| "js_plus PosInfinity _ = PosInfinity"
| "js_plus _ PosInfinity = PosInfinity"
| "js_plus NegInfinity _ = NegInfinity"
| "js_plus _ NegInfinity = NegInfinity"

text \<open>The truth value of a number in a condition: 0 and \<^verbatim>\<open>NaN\<close> are false.\<close>

definition truthy :: "number \<Rightarrow> bool" where
  "truthy n = (case n of Num k \<Rightarrow> k \<noteq> 0 | NaN \<Rightarrow> False | _ \<Rightarrow> True)"

text \<open>
  \<^verbatim>\<open>.sort((a, b) => a - b)\<close> on the finite numbers that \<^verbatim>\<open>filter\<close> has kept: ascending
  and stable.
\<close>

definition num_val :: "number \<Rightarrow> int" where
  "num_val n = (case n of Num k \<Rightarrow> k | _ \<Rightarrow> 0)"

definition sort_numbers :: "number list \<Rightarrow> number list" where
  "sort_numbers ns = sort_key num_val ns"

subsection \<open>Strings\<close>

text \<open>
  A string is a list of characters; a \<^typ>\<open>char\<close> stands for a UTF-16 code unit below
  256, so the middle dot of the total line is \<open>CHR 0xB7\<close>. \<^verbatim>\<open>String(n)\<close> of an integer
  is its decimal numeral (up to \<open>10^21\<close>, beyond which JavaScript switches to exponents).
\<close>

definition digit_char :: "nat \<Rightarrow> char" where
  "digit_char d = ''0123456789'' ! d"

function String_nat :: "nat \<Rightarrow> string" where
  "String_nat n = (if n < 10 then [digit_char n]
                   else String_nat (n div 10) @ [digit_char (n mod 10)])"
  by pat_completeness auto
termination
  by (relation "measure (\<lambda>n. n)") auto

declare String_nat.simps [simp del]

definition String_int :: "int \<Rightarrow> string" where
  "String_int n = (if n < 0 then CHR ''-'' # String_nat (nat (- n)) else String_nat (nat n))"

definition String_number :: "number \<Rightarrow> string" where
  "String_number n =
     (case n of Num k \<Rightarrow> String_int k | NaN \<Rightarrow> ''NaN''
      | PosInfinity \<Rightarrow> ''Infinity'' | NegInfinity \<Rightarrow> ''-Infinity'')"

text \<open>\<^verbatim>\<open>s.padStart(2, "0")\<close>.\<close>

definition padStart2 :: "string \<Rightarrow> string" where
  "padStart2 s = replicate (2 - length s) CHR ''0'' @ s"

definition pad2 :: "number \<Rightarrow> string" where
  "pad2 n = padStart2 (String_number n)"

text \<open>\<^verbatim>\<open>amount.toFixed(2)\<close> of an integer amount, and \<^verbatim>\<open>formatRand\<close>.\<close>

definition toFixed2 :: "int \<Rightarrow> string" where
  "toFixed2 amount = String_int amount @ ''.00''"

definition formatRand :: "int \<Rightarrow> string" where
  "formatRand amount = CHR ''R'' # toFixed2 amount"

text \<open>
  \<^verbatim>\<open>s.trim()\<close>: the white space and line terminators of ECMAScript among the code units
  below 256 are TAB, LF, VT, FF, CR, SPACE and NO-BREAK SPACE.
\<close>

definition isWhiteSpace :: "char \<Rightarrow> bool" where
  "isWhiteSpace c = (c \<in> set [CHR 0x09, CHR 0x0A, CHR 0x0B, CHR 0x0C, CHR 0x0D, CHR 0x20, CHR 0xA0])"

definition trim :: "string \<Rightarrow> string" where
  "trim s = rev (dropWhile isWhiteSpace (rev (dropWhile isWhiteSpace s)))"

text \<open>\<^verbatim>\<open>parts.join(sep)\<close>.\<close>

fun join :: "string \<Rightarrow> string list \<Rightarrow> string" where
  "join sep [] = []"
| "join sep [x] = x"
| "join sep (x # y # ys) = x @ sep @ join sep (y # ys)"

definition newline :: string where
  "newline = [CHR 0x0A]"

definition MealType_str :: "MealType \<Rightarrow> string" where
  "MealType_str m = (case m of Meat \<Rightarrow> ''Meat'' | Veg \<Rightarrow> ''Veg'' | LowCarb \<Rightarrow> ''Low Carb'')"

definition DayName_str :: "DayName \<Rightarrow> string" where
  "DayName_str d = (case d of Monday \<Rightarrow> ''Monday'' | Tuesday \<Rightarrow> ''Tuesday''
     | Wednesday \<Rightarrow> ''Wednesday'' | Thursday \<Rightarrow> ''Thursday'' | Friday \<Rightarrow> ''Friday'')"

text \<open>\<^verbatim>\<open>Alert.alert(title, message)\<close>; the message is optional.\<close>

datatype alert = Alert string "string option"

section \<open>Variant v1: fixed prices (App.tsx, lines 1-703)\<close>

definition BASE_PRICE :: int where
  "BASE_PRICE = 90"

definition LOW_CARB_EXTRA :: int where
  "LOW_CARB_EXTRA = 10"

definition sumWeekMeals_v1 :: "QtyByDay \<Rightarrow> int" where
  "sumWeekMeals_v1 quantities =
     fold (\<lambda>d total. fold (\<lambda>m total. total + quantities d m) MEAL_TYPES total) DAYS 0"

definition sumWeekCost_v1 :: "QtyByDay \<Rightarrow> int" where
  "sumWeekCost_v1 quantities =
     fold (\<lambda>d total.
        fold (\<lambda>m total.
           let qty = quantities d m;
               price = (if m = LowCarb then BASE_PRICE + LOW_CARB_EXTRA else BASE_PRICE)
           in total + qty * price) MEAL_TYPES total) DAYS 0"

record state_v1 =
  name_v1 :: string
  notes_v1 :: string
  weekA_v1 :: number
  useWeekB_v1 :: bool
  weekB_v1 :: number
  qtyA_v1 :: QtyByDay
  qtyB_v1 :: QtyByDay
  weekPickerOpen_v1 :: "which option"

text \<open>The initial values of the \<^verbatim>\<open>useState\<close> hooks.\<close>

definition init_v1 :: state_v1 where
  "init_v1 = \<lparr> name_v1 = [], notes_v1 = [], weekA_v1 = Num 1, useWeekB_v1 = False,
      weekB_v1 = Num 2, qtyA_v1 = emptyWeekQuantities, qtyB_v1 = emptyWeekQuantities,
      weekPickerOpen_v1 = None \<rparr>"

definition weekATotalMeals_v1 :: "state_v1 \<Rightarrow> int" where
  "weekATotalMeals_v1 s = sumWeekMeals_v1 (qtyA_v1 s)"

definition weekATotalCost_v1 :: "state_v1 \<Rightarrow> int" where
  "weekATotalCost_v1 s = sumWeekCost_v1 (qtyA_v1 s)"

definition weekBTotalMeals_v1 :: "state_v1 \<Rightarrow> int" where
  "weekBTotalMeals_v1 s = (if useWeekB_v1 s then sumWeekMeals_v1 (qtyB_v1 s) else 0)"

definition weekBTotalCost_v1 :: "state_v1 \<Rightarrow> int" where
  "weekBTotalCost_v1 s = (if useWeekB_v1 s then sumWeekCost_v1 (qtyB_v1 s) else 0)"

definition totalMeals_v1 :: "state_v1 \<Rightarrow> int" where
  "totalMeals_v1 s = weekATotalMeals_v1 s + weekBTotalMeals_v1 s"

definition totalCost_v1 :: "state_v1 \<Rightarrow> int" where
  "totalCost_v1 s = weekATotalCost_v1 s + weekBTotalCost_v1 s"

definition changeQty_v1 :: "which \<Rightarrow> DayName \<Rightarrow> MealType \<Rightarrow> int \<Rightarrow> state_v1 \<Rightarrow> state_v1" where
  "changeQty_v1 w day meal delta s =
     (case w of
        A \<Rightarrow> s\<lparr> qtyA_v1 := bump day meal delta (qtyA_v1 s) \<rparr>
      | B \<Rightarrow> s\<lparr> qtyB_v1 := bump day meal delta (qtyB_v1 s) \<rparr>)"

text \<open>The toggle of the "Add Week B" block: \<^verbatim>\<open>setUseWeekB((v) => !v)\<close>.\<close>

definition toggleWeekB_v1 :: "state_v1 \<Rightarrow> state_v1" where
  "toggleWeekB_v1 s = s\<lparr> useWeekB_v1 := \<not> useWeekB_v1 s \<rparr>"

definition clearOrder_v1 :: "state_v1 \<Rightarrow> state_v1" where
  "clearOrder_v1 s = s\<lparr> name_v1 := [], notes_v1 := [], weekA_v1 := Num 1,
      useWeekB_v1 := False, weekB_v1 := Num 2, qtyA_v1 := emptyWeekQuantities,
      qtyB_v1 := emptyWeekQuantities, weekPickerOpen_v1 := None \<rparr>"

definition pickWeek_v1 :: "which \<Rightarrow> number \<Rightarrow> state_v1 \<Rightarrow> alert option \<times> state_v1" where
  "pickWeek_v1 w v s =
     (case w of
        A \<Rightarrow>
          if useWeekB_v1 s \<and> strict_eq v (weekB_v1 s)
          then (Some (Alert ''Not allowed'' (Some ''Week A cannot be the same as Week B.'')), s)
          else (None, s\<lparr> weekA_v1 := v, weekPickerOpen_v1 := None \<rparr>)
      | B \<Rightarrow>
          if strict_eq v (weekA_v1 s)
          then (Some (Alert ''Not allowed'' (Some ''Week B cannot be the same as Week A.'')), s)
          else (None, s\<lparr> weekB_v1 := v, weekPickerOpen_v1 := None \<rparr>))"

text \<open>
  \<^verbatim>\<open>buildOrderText\<close>. The source writes the block of a week twice, once for each slot;
  the two copies differ only in the slot they read, so the block is one function here:
  \<open>dayParts_v1\<close> is the array \<^verbatim>\<open>parts\<close> of a day, \<open>weekBlock_v1\<close> the lines a block
  pushes onto \<^verbatim>\<open>lines\<close>, and \<open>orderLines_v1\<close> the array \<^verbatim>\<open>lines\<close> that is joined at the end.
\<close>

definition dayParts_v1 :: "QtyByDay \<Rightarrow> DayName \<Rightarrow> string list" where
  "dayParts_v1 qty d =
     fold (\<lambda>m parts. let q = qty d m in
        if q > 0 then parts @ [String_int q @ '' '' @ MealType_str m] else parts) MEAL_TYPES []"

definition weekBlock_v1 :: "number \<Rightarrow> QtyByDay \<Rightarrow> int \<Rightarrow> int \<Rightarrow> string list \<Rightarrow> string list" where
  "weekBlock_v1 week qty weekMeals weekCost lines0 =
     (let lines1 = lines0 @ [''Week '' @ pad2 week @ '':''];
          lines2 = fold (\<lambda>d lines. let parts = dayParts_v1 qty d in
             if parts \<noteq> [] then lines @ [''- '' @ DayName_str d @ '': '' @ join '' + '' parts]
             else lines) DAYS lines1
      in lines2 @ [''Total meals (Week '' @ pad2 week @ ''): '' @ String_int weekMeals,
                   ''Cost (Week '' @ pad2 week @ ''): '' @ formatRand weekCost,
                   []])"

definition orderLines_v1 :: "state_v1 \<Rightarrow> string list" where
  "orderLines_v1 s =
     (let lines0 = [''Meal Order'',
                    ''Name: '' @ (if trim (name_v1 s) \<noteq> [] then trim (name_v1 s) else ''[name]''),
                    []];
          lines1 = weekBlock_v1 (weekA_v1 s) (qtyA_v1 s) (weekATotalMeals_v1 s)
                     (weekATotalCost_v1 s) lines0;
          lines2 = (if useWeekB_v1 s
                    then weekBlock_v1 (weekB_v1 s) (qtyB_v1 s) (weekBTotalMeals_v1 s)
                           (weekBTotalCost_v1 s) lines1
                    else lines1);
          lines3 = lines2 @ [''Total meals: '' @ String_int (totalMeals_v1 s),
                             ''Total cost: '' @ formatRand (totalCost_v1 s)]
      in if trim (notes_v1 s) \<noteq> [] then lines3 @ [[], ''Notes: '' @ trim (notes_v1 s)]
         else lines3)"

definition buildOrderText_v1 :: "state_v1 \<Rightarrow> string" where
  "buildOrderText_v1 s = join newline (orderLines_v1 s)"

text \<open>
  \<^verbatim>\<open>sendWhatsApp\<close>: the validation that precedes the hand-off. The result is the alert
  of a refused send, or the text handed to the messaging link.
\<close>

definition sendWhatsApp_v1 :: "state_v1 \<Rightarrow> alert + string" where
  "sendWhatsApp_v1 s =
     (if js_less (weekA_v1 s) (Num 1) \<or> js_less (Num 48) (weekA_v1 s)
      then Inl (Alert ''Week A must be between 1 and 48.'' None)
      else if useWeekB_v1 s \<and> (js_less (weekB_v1 s) (Num 1) \<or> js_less (Num 48) (weekB_v1 s))
      then Inl (Alert ''Week B must be between 1 and 48.'' None)
      else if useWeekB_v1 s \<and> strict_eq (weekB_v1 s) (weekA_v1 s)
      then Inl (Alert ''Week B must be different from Week A.'' None)
      else Inr (buildOrderText_v1 s))"

section \<open>Variant p0: per-week prices (unnamed/part_000)\<close>

text \<open>
  \<^verbatim>\<open>menusByWeek\<close> is the JSON object of menus.json. It is modelled as the list of its
  entries. An entry is the key, the number \<^verbatim>\<open>Number(key)\<close> that the builtin gives for
  the key, and the value: the keys \<^verbatim>\<open>"3"\<close> and \<^verbatim>\<open>"03"\<close> both have the number 3. The
  list of the available weeks is made of the numbers; reading the property
  \<^verbatim>\<open>menusByWeek[weekNumber]\<close> is a lookup of the key \<^verbatim>\<open>String(weekNumber)\<close>, so the entry
  with the key \<^verbatim>\<open>"03"\<close> is listed as week 3 and is not found as the menu of week 3. The keys
  of an object are distinct. Of a weekly menu only the fields these functions read are kept.
\<close>

record WeeklyMenu_p0 =
  title_p0 :: string
  dateRange_p0 :: "string option"
  price_p0 :: "int option"
  lowCarbExtra_p0 :: "int option"

type_synonym MenusByWeek_p0 = "(string \<times> number \<times> WeeklyMenu_p0) list"

definition DEFAULT_BASE_PRICE :: int where
  "DEFAULT_BASE_PRICE = 90"

definition DEFAULT_LOW_CARB_EXTRA :: int where
  "DEFAULT_LOW_CARB_EXTRA = 10"

definition sumWeekMeals_p0 :: "QtyByDay \<Rightarrow> int" where
  "sumWeekMeals_p0 quantities =
     fold (\<lambda>d total. total + (quantities d Meat + quantities d Veg + quantities d LowCarb))
       DAYS 0"

definition sumWeekCost_p0 :: "QtyByDay \<Rightarrow> int \<Rightarrow> int \<Rightarrow> int" where
  "sumWeekCost_p0 quantities basePrice lowCarbExtra =
     fold (\<lambda>d total.
        let total1 = total + quantities d Meat * basePrice;
            total2 = total1 + quantities d Veg * basePrice
        in total2 + quantities d LowCarb * (basePrice + lowCarbExtra)) DAYS 0"

definition availableWeeks_p0 :: "MenusByWeek_p0 \<Rightarrow> number list" where
  "availableWeeks_p0 menusByWeek =
     (let nums = sort_numbers (filter Number_isFinite (map (\<lambda>(k, n, m). n) menusByWeek))
      in if nums \<noteq> [] then nums else map (\<lambda>i. Num (int i + 1)) [0..<48])"

text \<open>\<^verbatim>\<open>availableWeekSet.has(w)\<close>.\<close>

definition availableWeekSet_has_p0 :: "MenusByWeek_p0 \<Rightarrow> number \<Rightarrow> bool" where
  "availableWeekSet_has_p0 menusByWeek w = (w \<in> set (availableWeeks_p0 menusByWeek))"

text \<open>\<^verbatim>\<open>availableWeeks[0] ?? 1\<close>.\<close>

definition firstWeek_p0 :: "MenusByWeek_p0 \<Rightarrow> number" where
  "firstWeek_p0 menusByWeek =
     (case availableWeeks_p0 menusByWeek of [] \<Rightarrow> Num 1 | w # _ \<Rightarrow> w)"

text \<open>
  The value both the initialiser of \<^verbatim>\<open>weekB\<close> and \<^verbatim>\<open>clearOrder\<close> compute:
  \<^verbatim>\<open>second ?? (first === 48 ? 47 : first + 1)\<close>.
\<close>

definition secondWeek_p0 :: "MenusByWeek_p0 \<Rightarrow> number" where
  "secondWeek_p0 menusByWeek =
     (let first = firstWeek_p0 menusByWeek
      in case find (\<lambda>w. \<not> strict_eq w first) (availableWeeks_p0 menusByWeek) of
           Some second \<Rightarrow> second
         | None \<Rightarrow> if strict_eq first (Num 48) then Num 47 else js_plus first (Num 1))"

record state_p0 =
  name_p0 :: string
  notes_p0 :: string
  weekA_p0 :: number
  useWeekB_p0 :: bool
  weekB_p0 :: number
  qtyA_p0 :: QtyByDay
  qtyB_p0 :: QtyByDay
  weekPickerOpen_p0 :: "which option"

definition init_p0 :: "MenusByWeek_p0 \<Rightarrow> state_p0" where
  "init_p0 menusByWeek = \<lparr> name_p0 = [], notes_p0 = [], weekA_p0 = firstWeek_p0 menusByWeek,
      useWeekB_p0 = False, weekB_p0 = secondWeek_p0 menusByWeek,
      qtyA_p0 = emptyWeekQuantities, qtyB_p0 = emptyWeekQuantities,
      weekPickerOpen_p0 = None \<rparr>"

definition getMenuForWeek_p0 :: "MenusByWeek_p0 \<Rightarrow> number \<Rightarrow> WeeklyMenu_p0 option" where
  "getMenuForWeek_p0 menusByWeek weekNumber =
     map_of (map (\<lambda>(k, n, m). (k, m)) menusByWeek) (String_number weekNumber)"

text \<open>\<^verbatim>\<open>getPricingForWeek\<close> returns the pair \<open>(basePrice, lowCarbExtra)\<close>.\<close>

definition getPricingForWeek_p0 :: "MenusByWeek_p0 \<Rightarrow> number \<Rightarrow> int \<times> int" where
  "getPricingForWeek_p0 menusByWeek weekNumber =
     (let m = getMenuForWeek_p0 menusByWeek weekNumber;
          basePrice = (case Option.bind m price_p0 of Some p \<Rightarrow> p | None \<Rightarrow> DEFAULT_BASE_PRICE);
          lowCarbExtra = (case Option.bind m lowCarbExtra_p0 of Some e \<Rightarrow> e
                          | None \<Rightarrow> DEFAULT_LOW_CARB_EXTRA)
      in (basePrice, lowCarbExtra))"

definition weekATotalMeals_p0 :: "state_p0 \<Rightarrow> int" where
  "weekATotalMeals_p0 s = sumWeekMeals_p0 (qtyA_p0 s)"

definition weekBTotalMeals_p0 :: "state_p0 \<Rightarrow> int" where
  "weekBTotalMeals_p0 s = (if useWeekB_p0 s then sumWeekMeals_p0 (qtyB_p0 s) else 0)"

definition weekATotalCost_p0 :: "MenusByWeek_p0 \<Rightarrow> state_p0 \<Rightarrow> int" where
  "weekATotalCost_p0 menusByWeek s =
     (let (basePriceA, lowCarbExtraA) = getPricingForWeek_p0 menusByWeek (weekA_p0 s)
      in sumWeekCost_p0 (qtyA_p0 s) basePriceA lowCarbExtraA)"

definition weekBTotalCost_p0 :: "MenusByWeek_p0 \<Rightarrow> state_p0 \<Rightarrow> int" where
  "weekBTotalCost_p0 menusByWeek s =
     (let (basePriceB, lowCarbExtraB) = getPricingForWeek_p0 menusByWeek (weekB_p0 s)
      in if useWeekB_p0 s then sumWeekCost_p0 (qtyB_p0 s) basePriceB lowCarbExtraB else 0)"

definition totalMeals_p0 :: "state_p0 \<Rightarrow> int" where
  "totalMeals_p0 s = weekATotalMeals_p0 s + weekBTotalMeals_p0 s"

definition totalCost_p0 :: "MenusByWeek_p0 \<Rightarrow> state_p0 \<Rightarrow> int" where
  "totalCost_p0 menusByWeek s = weekATotalCost_p0 menusByWeek s + weekBTotalCost_p0 menusByWeek s"

definition changeQty_p0 :: "which \<Rightarrow> DayName \<Rightarrow> MealType \<Rightarrow> int \<Rightarrow> state_p0 \<Rightarrow> state_p0" where
  "changeQty_p0 w day meal delta s =
     (case w of
        A \<Rightarrow> s\<lparr> qtyA_p0 := bump day meal delta (qtyA_p0 s) \<rparr>
      | B \<Rightarrow> s\<lparr> qtyB_p0 := bump day meal delta (qtyB_p0 s) \<rparr>)"

definition clearOrder_p0 :: "MenusByWeek_p0 \<Rightarrow> state_p0 \<Rightarrow> state_p0" where
  "clearOrder_p0 menusByWeek s =
     (let s1 = s\<lparr> name_p0 := [], notes_p0 := [], useWeekB_p0 := False,
                  qtyA_p0 := emptyWeekQuantities, qtyB_p0 := emptyWeekQuantities,
                  weekPickerOpen_p0 := None \<rparr>;
          first = firstWeek_p0 menusByWeek;
          s2 = s1\<lparr> weekA_p0 := first \<rparr>;
          second = find (\<lambda>w. \<not> strict_eq w first) (availableWeeks_p0 menusByWeek)
      in s2\<lparr> weekB_p0 := (case second of Some w \<Rightarrow> w
                | None \<Rightarrow> if strict_eq first (Num 48) then Num 47 else js_plus first (Num 1)) \<rparr>)"

definition pickWeek_p0 ::
  "MenusByWeek_p0 \<Rightarrow> which \<Rightarrow> number \<Rightarrow> state_p0 \<Rightarrow> alert option \<times> state_p0" where
  "pickWeek_p0 menusByWeek w v s =
     (case w of
        A \<Rightarrow>
          if useWeekB_p0 s \<and> strict_eq v (weekB_p0 s)
          then (Some (Alert ''Not allowed'' (Some ''Week A cannot be the same as Week B.'')), s)
          else
            let s1 = s\<lparr> weekA_p0 := v \<rparr>;
                s2 = (if useWeekB_p0 s
                         \<and> (\<not> availableWeekSet_has_p0 menusByWeek (weekB_p0 s)
                             \<or> strict_eq (weekB_p0 s) v)
                      then (case find (\<lambda>w. \<not> strict_eq w v) (availableWeeks_p0 menusByWeek) of
                              Some nxt \<Rightarrow> if truthy nxt then s1\<lparr> weekB_p0 := nxt \<rparr> else s1
                            | None \<Rightarrow> s1)
                      else s1)
            in (None, s2\<lparr> weekPickerOpen_p0 := None \<rparr>)
      | B \<Rightarrow>
          if strict_eq v (weekA_p0 s)
          then (Some (Alert ''Not allowed'' (Some ''Week B cannot be the same as Week A.'')), s)
          else (None, s\<lparr> weekB_p0 := v, weekPickerOpen_p0 := None \<rparr>))"

section \<open>Variant v3: menus.json and week steppers (App.tsx, lines 923-2091)\<close>

text \<open>
  \<^verbatim>\<open>menusByWeek\<close> is React state that only the loader of menus.json sets, with the cast
  \<^verbatim>\<open>data as MenusByWeek\<close> and no validation; the handlers and formatters read it, so it is
  a parameter of theirs. It holds whatever \<^verbatim>\<open>JSON.parse\<close> returned, so its values are
  JavaScript values built from JSON: \<^verbatim>\<open>undefined\<close> is added for the result of reading a
  property that is not there. Numbers are integers (a fractional number behaves as a
  non-zero integer does, but for its digits).
\<close>

datatype jsvalue = JUndefined | JNull | JBool bool | JNum int | JStr string
  | JArr "jsvalue list" | JObj "(string \<times> jsvalue) list"

text \<open>
  As in p0 the catalog is the list of the entries of the JSON object, each entry the key,
  the number \<^verbatim>\<open>Number(key)\<close> and the value; the available weeks are the numbers, and the
  menu of a week is looked up under the key \<^verbatim>\<open>String(weekNumber)\<close>.
\<close>

type_synonym MenusByWeek_v3 = "(string \<times> number \<times> jsvalue) list"

text \<open>The only exception the formatters can meet.\<close>

datatype error = TypeError

text \<open>
  A fallible step followed by the rest of the function: an exception of the step is the
  exception of the whole.
\<close>

definition bindE :: "error + 'a \<Rightarrow> ('a \<Rightarrow> error + 'b) \<Rightarrow> error + 'b" where
  "bindE r f = (case r of Inl e \<Rightarrow> Inl e | Inr x \<Rightarrow> f x)"

text \<open>A \<^verbatim>\<open>for\<close> loop whose body can raise: the first exception ends the loop.\<close>

fun foldE :: "('a \<Rightarrow> 'b \<Rightarrow> error + 'b) \<Rightarrow> 'a list \<Rightarrow> 'b \<Rightarrow> error + 'b" where
  "foldE f [] acc = Inr acc"
| "foldE f (x # xs) acc = bindE (f x acc) (foldE f xs)"

text \<open>The truth value of a value in a condition.\<close>

definition truthyV :: "jsvalue \<Rightarrow> bool" where
  "truthyV v = (case v of JUndefined \<Rightarrow> False | JNull \<Rightarrow> False | JBool b \<Rightarrow> b
     | JNum n \<Rightarrow> n \<noteq> 0 | JStr s \<Rightarrow> s \<noteq> [] | JArr _ \<Rightarrow> True | JObj _ \<Rightarrow> True)"

text \<open>
  \<^verbatim>\<open>v?.k\<close>, and \<^verbatim>\<open>v.k\<close> on a value that is neither \<^verbatim>\<open>null\<close> nor \<^verbatim>\<open>undefined\<close>, for the
  property names the source reads (\<^verbatim>\<open>dateRange\<close>, \<^verbatim>\<open>days\<close>, the names of the days,
  \<^verbatim>\<open>Meat\<close>, \<^verbatim>\<open>Veg\<close>, \<^verbatim>\<open>name\<close>, \<^verbatim>\<open>description\<close>): an object has the property when it is
  among its own, and no string, array, number, boolean or prototype has one of these names.
\<close>

definition getProp :: "jsvalue \<Rightarrow> string \<Rightarrow> jsvalue" where
  "getProp v k = (case v of
       JObj kvs \<Rightarrow> (case map_of kvs k of Some x \<Rightarrow> x | None \<Rightarrow> JUndefined)
     | _ \<Rightarrow> JUndefined)"

text \<open>
  The conversion of a value to a string in a template literal. An array is joined with
  commas, \<^verbatim>\<open>null\<close> and \<^verbatim>\<open>undefined\<close> elements giving the empty string. An object is
  converted by its \<^verbatim>\<open>toString\<close>: the one of \<^verbatim>\<open>Object.prototype\<close> gives
  \<^verbatim>\<open>[object Object]\<close>; an own property \<^verbatim>\<open>toString\<close> hides it, and as no value of JSON is
  callable and \<^verbatim>\<open>valueOf\<close> returns no primitive, the conversion raises \<^verbatim>\<open>TypeError\<close>.
\<close>

fun ToString :: "jsvalue \<Rightarrow> error + string"
  and ToString_elems :: "jsvalue list \<Rightarrow> error + string list" where
  "ToString JUndefined = Inr ''undefined''"
| "ToString JNull = Inr ''null''"
| "ToString (JBool b) = Inr (if b then ''true'' else ''false'')"
| "ToString (JNum n) = Inr (String_int n)"
| "ToString (JStr s) = Inr s"
| "ToString (JArr xs) = bindE (ToString_elems xs) (\<lambda>ts. Inr (join '','' ts))"
| "ToString (JObj kvs) =
     (if map_of kvs ''toString'' \<noteq> None then Inl TypeError else Inr ''[object Object]'')"
| "ToString_elems [] = Inr []"
| "ToString_elems (x # xs) =
     bindE (if x = JUndefined \<or> x = JNull then Inr [] else ToString x)
       (\<lambda>t. bindE (ToString_elems xs) (\<lambda>ts. Inr (t # ts)))"

definition PRICE_MEAT :: int where
  "PRICE_MEAT = 90"

definition PRICE_VEG :: int where
  "PRICE_VEG = 90"

definition PRICE_LOW_CARB :: int where
  "PRICE_LOW_CARB = 100"

definition LOW_CARB_NOTE :: string where
  "LOW_CARB_NOTE = ''Low Carb meals follow the same menu as above; however, starchy sides (e.g., potatoes, rice, pasta, couscous) will be substituted with a suitable low-carb alternative such as cauliflower rice or seasonal vegetables, where appropriate.''"

definition DAY_SHORT :: "DayName \<Rightarrow> string" where
  "DAY_SHORT d = (case d of Monday \<Rightarrow> ''Mon'' | Tuesday \<Rightarrow> ''Tue'' | Wednesday \<Rightarrow> ''Wed''
     | Thursday \<Rightarrow> ''Thu'' | Friday \<Rightarrow> ''Fri'')"

definition priceFor :: "MealType \<Rightarrow> int" where
  "priceFor meal = (if meal = Meat then PRICE_MEAT else if meal = Veg then PRICE_VEG
                    else PRICE_LOW_CARB)"

text \<open>\<^verbatim>\<open>q || 0\<close> on a quantity.\<close>

definition or0 :: "int \<Rightarrow> int" where
  "or0 q = (if q \<noteq> 0 then q else 0)"

definition sumWeekMeals_v3 :: "QtyByDay \<Rightarrow> int" where
  "sumWeekMeals_v3 qty =
     fold (\<lambda>day total. fold (\<lambda>meal total. total + or0 (qty day meal)) MEAL_TYPES total) DAYS 0"

definition sumWeekCost_v3 :: "QtyByDay \<Rightarrow> int" where
  "sumWeekCost_v3 qty =
     fold (\<lambda>day total.
        fold (\<lambda>meal total. total + or0 (qty day meal) * priceFor meal) MEAL_TYPES total) DAYS 0"

record state_v3 =
  name_v3 :: string
  notes_v3 :: string
  useWeekB_v3 :: bool
  qtyA_v3 :: QtyByDay
  qtyB_v3 :: QtyByDay
  weekA_v3 :: number
  weekB_v3 :: number

definition init_v3 :: state_v3 where
  "init_v3 = \<lparr> name_v3 = [], notes_v3 = [], useWeekB_v3 = False,
      qtyA_v3 = emptyWeekQuantities, qtyB_v3 = emptyWeekQuantities,
      weekA_v3 = Num 1, weekB_v3 = Num 2 \<rparr>"

definition availableWeeks_v3 :: "MenusByWeek_v3 \<Rightarrow> number list" where
  "availableWeeks_v3 menusByWeek =
     sort_numbers (filter Number_isFinite (map (\<lambda>(k, n, m). n) menusByWeek))"

text \<open>
  \<^verbatim>\<open>getMenuForWeek\<close>: both reads are reads of the property \<^verbatim>\<open>String(weekNumber)\<close>, and a
  value that counts as false gives \<^verbatim>\<open>null\<close>.
\<close>

definition getMenuForWeek_v3 :: "MenusByWeek_v3 \<Rightarrow> number \<Rightarrow> jsvalue" where
  "getMenuForWeek_v3 menusByWeek weekNumber =
     (let fromJson =
            (case map_of (map (\<lambda>(k, n, v). (k, v)) menusByWeek) (String_number weekNumber) of
               Some v \<Rightarrow> v | None \<Rightarrow> JUndefined)
      in if truthyV fromJson then fromJson else JNull)"

record MealParts =
  parts_name :: jsvalue
  parts_description :: jsvalue

definition getMealParts :: "jsvalue \<Rightarrow> DayName \<Rightarrow> MealType \<Rightarrow> MealParts" where
  "getMealParts menu day meal =
     (let dayMenu = getProp (getProp menu ''days'') (DayName_str day)
      in if meal = LowCarb
         then \<lparr> parts_name = JStr ''Low Carb'', parts_description = JStr LOW_CARB_NOTE \<rparr>
         else
           let item = (if meal = Meat then getProp dayMenu ''Meat'' else getProp dayMenu ''Veg'')
           in if \<not> truthyV item
              then \<lparr> parts_name = JStr ''Menu item coming soon.'', parts_description = JStr [] \<rparr>
              else \<lparr> parts_name = getProp item ''name'',
                     parts_description = getProp item ''description'' \<rparr>)"

definition clampWeek :: "MenusByWeek_v3 \<Rightarrow> number \<Rightarrow> number" where
  "clampWeek menusByWeek n =
     (if \<not> Number_isFinite n
      then (case availableWeeks_v3 menusByWeek of [] \<Rightarrow> Num 1 | w # _ \<Rightarrow> w)
      else Math_min (Num 48) (Math_max (Num 1) n))"

definition setWeekSafely ::
  "MenusByWeek_v3 \<Rightarrow> which \<Rightarrow> number \<Rightarrow> state_v3 \<Rightarrow> alert option \<times> state_v3" where
  "setWeekSafely menusByWeek w n s =
     (let nxt = clampWeek menusByWeek n;
          availableWeeks = availableWeeks_v3 menusByWeek
      in if length availableWeeks > 0 \<and> nxt \<notin> set availableWeeks
         then (Some (Alert ''Menu not available''
                      (Some (''Week '' @ pad2 nxt @ '' is not in menus.json.''))), s)
         else case w of
           A \<Rightarrow>
             let s1 = (if useWeekB_v3 s \<and> strict_eq nxt (weekB_v3 s) \<and> length availableWeeks > 1
                       then (case find (\<lambda>w. \<not> strict_eq w nxt) availableWeeks of
                               Some alt \<Rightarrow> s\<lparr> weekB_v3 := alt \<rparr> | None \<Rightarrow> s)
                       else s)
             in (None, s1\<lparr> weekA_v3 := nxt \<rparr>)
         | B \<Rightarrow>
             let s1 = (if useWeekB_v3 s \<and> strict_eq nxt (weekA_v3 s) \<and> length availableWeeks > 1
                       then (case find (\<lambda>w. \<not> strict_eq w nxt) availableWeeks of
                               Some alt \<Rightarrow> s\<lparr> weekA_v3 := alt \<rparr> | None \<Rightarrow> s)
                       else s)
             in (None, s1\<lparr> weekB_v3 := nxt \<rparr>))"

definition bump_v3 :: "DayName \<Rightarrow> MealType \<Rightarrow> int \<Rightarrow> QtyByDay \<Rightarrow> QtyByDay" where
  "bump_v3 day meal delta prev =
     (let cur = or0 (prev day meal)
      in prev(day := (prev day)(meal := max 0 (cur + delta))))"

definition changeQty_v3 :: "which \<Rightarrow> DayName \<Rightarrow> MealType \<Rightarrow> int \<Rightarrow> state_v3 \<Rightarrow> state_v3" where
  "changeQty_v3 w day meal delta s =
     (case w of
        A \<Rightarrow> s\<lparr> qtyA_v3 := bump_v3 day meal delta (qtyA_v3 s) \<rparr>
      | B \<Rightarrow> s\<lparr> qtyB_v3 := bump_v3 day meal delta (qtyB_v3 s) \<rparr>)"

definition clearOrder_v3 :: "state_v3 \<Rightarrow> state_v3" where
  "clearOrder_v3 s = s\<lparr> qtyA_v3 := emptyWeekQuantities, qtyB_v3 := emptyWeekQuantities,
      notes_v3 := [] \<rparr>"

definition weekATotalMeals_v3 :: "state_v3 \<Rightarrow> int" where
  "weekATotalMeals_v3 s = sumWeekMeals_v3 (qtyA_v3 s)"

definition weekATotalCost_v3 :: "state_v3 \<Rightarrow> int" where
  "weekATotalCost_v3 s = sumWeekCost_v3 (qtyA_v3 s)"

definition weekBTotalMeals_v3 :: "state_v3 \<Rightarrow> int" where
  "weekBTotalMeals_v3 s = (if useWeekB_v3 s then sumWeekMeals_v3 (qtyB_v3 s) else 0)"

definition weekBTotalCost_v3 :: "state_v3 \<Rightarrow> int" where
  "weekBTotalCost_v3 s = (if useWeekB_v3 s then sumWeekCost_v3 (qtyB_v3 s) else 0)"

definition totalMeals_v3 :: "state_v3 \<Rightarrow> int" where
  "totalMeals_v3 s = weekATotalMeals_v3 s + weekBTotalMeals_v3 s"

definition totalCost_v3 :: "state_v3 \<Rightarrow> int" where
  "totalCost_v3 s = weekATotalCost_v3 s + weekBTotalCost_v3 s"

definition hasAnySelections :: "state_v3 \<Rightarrow> bool" where
  "hasAnySelections s = (totalMeals_v3 s > 0)"

subsection \<open>The two texts of v3\<close>

definition middot :: string where
  "middot = [CHR 0xB7]"

text \<open>
  The heading both week builders push first. Its template literal converts the date range
  of the menu to a string, which is the one step of the heading that can raise.
\<close>

definition weekHeading :: "MenusByWeek_v3 \<Rightarrow> number \<Rightarrow> error + string" where
  "weekHeading menusByWeek weekNumber =
     (let menu = getMenuForWeek_v3 menusByWeek weekNumber
      in if truthyV (getProp menu ''dateRange'')
         then bindE (ToString (getProp menu ''dateRange''))
                (\<lambda>r. Inr (''Week '' @ pad2 weekNumber @ '' ('' @ r @ '')''))
         else Inr (''Week '' @ pad2 weekNumber))"

text \<open>
  The inner loop of \<^verbatim>\<open>buildDetailedLinesForWeek\<close>: the array \<^verbatim>\<open>dayLines\<close> of one day. The
  template literal of a line converts \<^verbatim>\<open>nameOnly\<close> to a string.
\<close>

definition detailedDayLines :: "jsvalue \<Rightarrow> QtyByDay \<Rightarrow> DayName \<Rightarrow> error + string list" where
  "detailedDayLines menu qty day =
     foldE (\<lambda>meal dayLines.
        let count = or0 (qty day meal)
        in if count \<le> 0 then Inr dayLines
           else
             let parts = getMealParts menu day meal;
                 nameOnly = (if meal = LowCarb then JStr ''Low Carb''
                             else if truthyV (parts_name parts) then parts_name parts
                             else JStr ''Menu item'')
             in bindE (ToString nameOnly)
                  (\<lambda>n. Inr (dayLines @ [''- '' @ MealType_str meal @ '': '' @ String_int count
                                        @ '' ('' @ n @ '')'']))) MEAL_TYPES []"

definition buildDetailedLinesForWeek ::
  "MenusByWeek_v3 \<Rightarrow> number \<Rightarrow> QtyByDay \<Rightarrow> error + string list" where
  "buildDetailedLinesForWeek menusByWeek weekNumber qty =
     (let menu = getMenuForWeek_v3 menusByWeek weekNumber
      in bindE (weekHeading menusByWeek weekNumber) (\<lambda>heading.
         bindE (foldE (\<lambda>day lines.
                  bindE (detailedDayLines menu qty day) (\<lambda>dayLines.
                    Inr (if length dayLines > 0 then lines @ [DayName_str day] @ dayLines
                         else lines))) DAYS [heading]) (\<lambda>lines1.
         let cost = sumWeekCost_v3 qty;
             meals = sumWeekMeals_v3 qty
         in Inr (lines1 @ [''Subtotal: '' @ String_int meals @ '' meals '' @ middot @ '' ''
                           @ formatRand cost, []]))))"

text \<open>
  \<^verbatim>\<open>while (lines.length > 0 && lines[lines.length - 1] === "") lines.pop()\<close>.
\<close>

function popBlank :: "string list \<Rightarrow> string list" where
  "popBlank lines = (if lines \<noteq> [] \<and> last lines = [] then popBlank (butlast lines) else lines)"
  by pat_completeness auto
termination
  by (relation "measure length") auto

declare popBlank.simps [simp del]

text \<open>
  The line of the name and the line of the total; the source writes each of them inline,
  the same in both texts.
\<close>

definition nameLine :: "string \<Rightarrow> string" where
  "nameLine name = ''Name: '' @ (if trim name \<noteq> [] then trim name else ''[name]'')"

definition totalLine :: "state_v3 \<Rightarrow> string" where
  "totalLine s = ''TOTAL: '' @ String_int (totalMeals_v3 s) @ '' meals '' @ middot @ '' ''
      @ formatRand (totalCost_v3 s)"

text \<open>The array \<^verbatim>\<open>lines\<close> of \<^verbatim>\<open>onScreenSummaryText\<close> when the loop that pops blanks is reached.\<close>

definition summaryLines :: "MenusByWeek_v3 \<Rightarrow> state_v3 \<Rightarrow> error + string list" where
  "summaryLines menusByWeek s =
     (let lines0 = [''Meal Order'', nameLine (name_v3 s), []]
      in bindE (buildDetailedLinesForWeek menusByWeek (weekA_v3 s) (qtyA_v3 s)) (\<lambda>blockA.
         let lines1 = lines0 @ blockA
         in bindE (if useWeekB_v3 s \<and> \<not> strict_eq (weekB_v3 s) (weekA_v3 s)
                   then bindE (buildDetailedLinesForWeek menusByWeek (weekB_v3 s) (qtyB_v3 s))
                          (\<lambda>blockB. Inr (lines1 @ blockB))
                   else Inr lines1) (\<lambda>lines2.
         let lines3 = lines2 @ [totalLine s]
         in Inr (if trim (notes_v3 s) \<noteq> [] then lines3 @ [[], ''Notes: '' @ trim (notes_v3 s)]
                 else lines3))))"

definition onScreenSummaryText :: "MenusByWeek_v3 \<Rightarrow> state_v3 \<Rightarrow> error + string" where
  "onScreenSummaryText menusByWeek s =
     (if \<not> hasAnySelections s then Inr []
      else bindE (summaryLines menusByWeek s) (\<lambda>lines. Inr (join newline (popBlank lines))))"

text \<open>The body of the loop of \<^verbatim>\<open>buildWhatsAppWeekLines\<close>: the array \<^verbatim>\<open>parts\<close> of one day.\<close>

definition whatsAppDayParts :: "QtyByDay \<Rightarrow> DayName \<Rightarrow> string list" where
  "whatsAppDayParts qty day =
     (let meat = or0 (qty day Meat);
          veg = or0 (qty day Veg);
          low = or0 (qty day LowCarb);
          parts1 = (if meat > 0 then [''x'' @ String_int meat @ '' Meat''] else []);
          parts2 = (if veg > 0 then parts1 @ [''x'' @ String_int veg @ '' Veg''] else parts1)
      in if low > 0 then parts2 @ [''x'' @ String_int low @ '' Low Carb''] else parts2)"

definition buildWhatsAppWeekLines ::
  "MenusByWeek_v3 \<Rightarrow> number \<Rightarrow> QtyByDay \<Rightarrow> error + string list" where
  "buildWhatsAppWeekLines menusByWeek weekNumber qty =
     bindE (weekHeading menusByWeek weekNumber) (\<lambda>heading.
       Inr (fold (\<lambda>day lines.
          let parts = whatsAppDayParts qty day
          in if length parts > 0 then lines @ [DAY_SHORT day @ '': '' @ join '' '' parts]
             else lines) DAYS [heading]))"

text \<open>The array \<^verbatim>\<open>lines\<close> of \<^verbatim>\<open>whatsappText\<close> when the loop that pops blanks is reached.\<close>

definition whatsappLines :: "MenusByWeek_v3 \<Rightarrow> state_v3 \<Rightarrow> error + string list" where
  "whatsappLines menusByWeek s =
     (let lines0 = [''Meal Order'', nameLine (name_v3 s), []]
      in bindE (buildWhatsAppWeekLines menusByWeek (weekA_v3 s) (qtyA_v3 s)) (\<lambda>blockA.
         let lines1 = lines0 @ blockA
         in bindE (if useWeekB_v3 s \<and> \<not> strict_eq (weekB_v3 s) (weekA_v3 s)
                   then bindE (buildWhatsAppWeekLines menusByWeek (weekB_v3 s) (qtyB_v3 s))
                          (\<lambda>blockB. Inr (lines1 @ [[]] @ blockB))
                   else Inr lines1) (\<lambda>lines2.
         let lines3 = lines2 @ [[], totalLine s]
         in Inr (if trim (notes_v3 s) \<noteq> [] then lines3 @ [[], ''Notes: '' @ trim (notes_v3 s)]
                 else lines3))))"

definition whatsappText :: "MenusByWeek_v3 \<Rightarrow> state_v3 \<Rightarrow> error + string" where
  "whatsappText menusByWeek s =
     (if \<not> hasAnySelections s then Inr []
      else bindE (whatsappLines menusByWeek s) (\<lambda>lines. Inr (join newline (popBlank lines))))"

subsection \<open>\<^verbatim>\<open>useMemo\<close>\<close>

text \<open>
  Both texts are \<^verbatim>\<open>useMemo\<close> values. React keeps the value of the last computation with
  the dependency array it was computed for, and computes again only when a dependency has
  changed. The dependency arrays of the two texts are the same eleven values. React
  compares each entry with \<^verbatim>\<open>Object.is\<close> (by reference for the grids and the menus, which
  the handlers replace and never mutate), so entries it finds unchanged are equal as
  values; the model keeps the cached value whenever the values are equal, which covers
  every case in which React keeps it.
\<close>

record deps_v3 =
  dep_hasAnySelections :: bool
  dep_name :: string
  dep_notes :: string
  dep_useWeekB :: bool
  dep_weekA :: number
  dep_weekB :: number
  dep_qtyA :: QtyByDay
  dep_qtyB :: QtyByDay
  dep_totalMeals :: int
  dep_totalCost :: int
  dep_menusByWeek :: MenusByWeek_v3

definition deps_of :: "MenusByWeek_v3 \<Rightarrow> state_v3 \<Rightarrow> deps_v3" where
  "deps_of menusByWeek s = \<lparr> dep_hasAnySelections = hasAnySelections s, dep_name = name_v3 s,
      dep_notes = notes_v3 s, dep_useWeekB = useWeekB_v3 s, dep_weekA = weekA_v3 s,
      dep_weekB = weekB_v3 s, dep_qtyA = qtyA_v3 s, dep_qtyB = qtyB_v3 s,
      dep_totalMeals = totalMeals_v3 s, dep_totalCost = totalCost_v3 s,
      dep_menusByWeek = menusByWeek \<rparr>"

type_synonym 'v memo = "(deps_v3 \<times> 'v) option"

text \<open>
  One render: the value shown or the exception of the computation, and the memo cell
  after it. A computation that raises leaves the cell as it was.
\<close>

definition useMemo :: "'v memo \<Rightarrow> deps_v3 \<Rightarrow> error + 'v \<Rightarrow> (error + 'v) \<times> 'v memo" where
  "useMemo cell deps fresh =
     (let compute = (case fresh of Inl e \<Rightarrow> (Inl e, cell) | Inr v \<Rightarrow> (Inr v, Some (deps, v)))
      in case cell of
           Some (d, v) \<Rightarrow> if d = deps then (Inr v, cell) else compute
         | None \<Rightarrow> compute)"

text \<open>
  The texts shown by a sequence of renders, each render with the menus and the state it
  sees, starting from the memo cell \<open>cell\<close>.
\<close>

fun renders ::
  "(MenusByWeek_v3 \<Rightarrow> state_v3 \<Rightarrow> error + string) \<Rightarrow> string memo
     \<Rightarrow> (MenusByWeek_v3 \<times> state_v3) list \<Rightarrow> (error + string) list" where
  "renders f cell [] = []"
| "renders f cell ((m, s) # rest) =
     (let (shown, cell') = useMemo cell (deps_of m s) (f m s) in shown # renders f cell' rest)"

section \<open>Notions used in the statements\<close>

text \<open>The grid of a week slot, and a run of \<^verbatim>\<open>changeQty\<close> calls on one cell.\<close>

definition grid_v1 :: "which \<Rightarrow> state_v1 \<Rightarrow> QtyByDay" where
  "grid_v1 w s = (case w of A \<Rightarrow> qtyA_v1 s | B \<Rightarrow> qtyB_v1 s)"

definition changeQty_run_v1 :: "which \<Rightarrow> DayName \<Rightarrow> MealType \<Rightarrow> int list \<Rightarrow> state_v1 \<Rightarrow> state_v1" where
  "changeQty_run_v1 w day meal deltas s = fold (changeQty_v1 w day meal) deltas s"

text \<open>
  What a run of calls does to its cell: the quantity is clamped after every single
  call, so the run is a fold of \<open>\<lambda>delta q. clamp0 (q + delta)\<close> over the deltas.
\<close>

definition clamp_run :: "int list \<Rightarrow> int \<Rightarrow> int" where
  "clamp_run deltas q = fold (\<lambda>delta q. clamp0 (q + delta)) deltas q"


text \<open>The grid of the scenario: two meat meals on Monday, one vegetarian meal on Wednesday.\<close>

definition scenario_grid :: QtyByDay where
  "scenario_grid = emptyWeekQuantities(Monday := (emptyWeekQuantities Monday)(Meat := 2),
      Wednesday := (emptyWeekQuantities Wednesday)(Veg := 1))"


text \<open>The week a slot of v3 holds, and what it is for a week number to lie in 1..48.\<close>

definition slot_v3 :: "which \<Rightarrow> state_v3 \<Rightarrow> number" where
  "slot_v3 w s = (case w of A \<Rightarrow> weekA_v3 s | B \<Rightarrow> weekB_v3 s)"

definition weekInRange :: "number \<Rightarrow> bool" where
  "weekInRange w = (case w of Num k \<Rightarrow> 1 \<le> k \<and> k \<le> 48 | _ \<Rightarrow> False)"

text \<open>Small menus.json files for the examples: a weekly menu without a date range or days.\<close>

definition bareMenu :: "string \<Rightarrow> jsvalue" where
  "bareMenu t = JObj [(''title'', JStr t)]"

definition menus_3_4 :: MenusByWeek_v3 where
  "menus_3_4 = [(''3'', Num 3, bareMenu ''Week 3''), (''4'', Num 4, bareMenu ''Week 4'')]"

definition menus_48_52 :: MenusByWeek_v3 where
  "menus_48_52 = [(''48'', Num 48, bareMenu ''Week 48''), (''52'', Num 52, bareMenu ''Week 52'')]"

text \<open>A notes line is a line that starts with the label of the notes.\<close>

definition notesLine :: "string \<Rightarrow> bool" where
  "notesLine l = prefix ''Notes: '' l"

text \<open>
  A memo cell is coherent for a text \<open>f\<close> when it is empty or holds the dependencies of
  some render together with the text of that render.
\<close>

definition coherent ::
  "(MenusByWeek_v3 \<Rightarrow> state_v3 \<Rightarrow> error + string) \<Rightarrow> string memo \<Rightarrow> bool" where
  "coherent f cell =
     (case cell of None \<Rightarrow> True
      | Some (d, v) \<Rightarrow> (\<exists>m s. d = deps_of m s \<and> f m s = Inr v))"

text \<open>
  A value is printable when its conversion to a string cannot raise: it is no object with
  an own property \<^verbatim>\<open>toString\<close>, and no array with an element that is not printable. A
  week is printable in a catalog when the date range of its menu and the names of its
  menu items are: strings are, as \<^verbatim>\<open>WeeklyMenu\<close> and \<^verbatim>\<open>MenuItem\<close> declare them.
\<close>

fun printable :: "jsvalue \<Rightarrow> bool" where
  "printable (JArr xs) = list_all printable xs"
| "printable (JObj kvs) = (map_of kvs ''toString'' = None)"
| "printable _ = True"

definition weekPrintable :: "MenusByWeek_v3 \<Rightarrow> number \<Rightarrow> bool" where
  "weekPrintable menusByWeek week =
     (printable (getProp (getMenuForWeek_v3 menusByWeek week) ''dateRange'')
      \<and> list_all (\<lambda>day. list_all (\<lambda>meal.
           printable (parts_name (getMealParts (getMenuForWeek_v3 menusByWeek week) day meal)))
           MEAL_TYPES) DAYS)"

text \<open>A menus.json whose week 1 has an object with a property \<^verbatim>\<open>toString\<close> as its date range.\<close>

definition menus_bad_dateRange :: MenusByWeek_v3 where
  "menus_bad_dateRange =
     [(''1'', Num 1, JObj [(''title'', JStr ''Week 1''),
                           (''dateRange'', JObj [(''toString'', JNum 1)])])]"

text \<open>A menus.json as \<^verbatim>\<open>MenusByWeek\<close> declares it, with one week and the two dishes of its Monday.\<close>

definition menus_week1 :: MenusByWeek_v3 where
  "menus_week1 =
     [(''1'', Num 1, JObj [(''title'', JStr ''Week 1''), (''dateRange'', JStr ''5-9 Jan''),
        (''days'', JObj [(''Monday'', JObj [
            (''Meat'', JObj [(''name'', JStr ''Beef stew''), (''description'', JStr ''With rice'')]),
            (''Veg'', JObj [(''name'', JStr ''Lentil curry''), (''description'', JStr ''With rice'')])])])])]"

section \<open>Quantities (C1)\<close>

lemma grid_changeQty_v1:
  "grid_v1 w (changeQty_v1 w day meal delta s) day meal = clamp0 (grid_v1 w s day meal + delta)"
  by (cases w) (simp_all add: grid_v1_def changeQty_v1_def bump_def)

text \<open>The updater of v3 writes the same clamp with \<^verbatim>\<open>Math.max\<close>.\<close>

lemma bump_v3_bump: "bump_v3 day meal delta prev = bump day meal delta prev"
  by (simp add: bump_v3_def bump_def or0_def clamp0_def max_def)

lemma grid_changeQty_run_v1:
  "grid_v1 w (changeQty_run_v1 w day meal deltas s) day meal
     = clamp_run deltas (grid_v1 w s day meal)"
  unfolding changeQty_run_v1_def clamp_run_def
  by (induction deltas arbitrary: s) (simp_all add: grid_changeQty_v1)

lemma clamp_run_snoc: "clamp_run (ds @ [x]) q = clamp0 (clamp_run ds q + x)"
  by (simp add: clamp_run_def)

lemma clamp_run_suffixes: "clamp_run ds 0 = Max (sum_list ` set (suffixes ds))"
proof (induction ds rule: rev_induct)
  case Nil
  show ?case by (simp add: clamp_run_def)
next
  case (snoc x ds)
  let ?S = "sum_list ` set (suffixes ds)"
  have fin: "finite ?S" and ne: "?S \<noteq> {}" by auto
  have "sum_list ` set (suffixes (ds @ [x])) = insert 0 ((\<lambda>v. v + x) ` ?S)"
    by (simp add: image_image)
  then have "Max (sum_list ` set (suffixes (ds @ [x]))) = max 0 (Max ((\<lambda>v. v + x) ` ?S))"
    using fin ne by simp
  also have "Max ((\<lambda>v. v + x) ` ?S) = Max ?S + x"
    using fin ne by (simp add: Max_add_commute)
  finally show ?case
    using snoc.IH by (simp add: clamp_run_snoc clamp0_def max_def)
qed

lemma clamp_run_nonneg: "0 \<le> clamp_run ds 0"
  by (induction ds rule: rev_induct) (simp_all add: clamp_run_def clamp0_def)

lemma clamp_run_ge_sum: "sum_list ds \<le> clamp_run ds 0"
  unfolding clamp_run_suffixes by (rule Max_ge) auto

lemma clamp_run_prefix_nonneg:
  assumes "\<forall>k\<le>length ds. 0 \<le> sum_list (take k ds)"
  shows "clamp_run ds 0 = sum_list ds"
proof (rule antisym)
  show "clamp_run ds 0 \<le> sum_list ds"
    unfolding clamp_run_suffixes
  proof (rule Max.boundedI)
    fix a assume "a \<in> sum_list ` set (suffixes ds)"
    then obtain ys where ys: "suffix ys ds" "a = sum_list ys" by auto
    then obtain zs where zs: "ds = zs @ ys" by (auto simp: suffix_def)
    have "take (length zs) ds = zs" using zs by simp
    moreover have "length zs \<le> length ds" using zs by simp
    ultimately have "0 \<le> sum_list zs" using assms by metis
    then show "a \<le> sum_list ds" using ys zs by simp
  qed auto
qed (rule clamp_run_ge_sum)

text \<open>
  C1, as the code has it. The claim reads: after any sequence of \<^verbatim>\<open>changeQty\<close> calls
  on one cell, starting from quantity 0, the quantity is \<open>max 0 (sum of the deltas)\<close> and
  never negative. The code clamps after every call, not once at the end, so the
  equation fails as soon as one call was clamped: pressing minus on 0 and then plus
  leaves 1, while the sum of the deltas is 0.
\<close>

theorem C1_clamped_sum_counterexample:
  "grid_v1 A (changeQty_run_v1 A Monday Meat [- 1, 1] init_v1) Monday Meat = 1
   \<and> max 0 (sum_list [- 1, 1 :: int]) = 0"
  unfolding grid_changeQty_run_v1
  by (simp add: clamp_run_def clamp0_def grid_v1_def init_v1_def emptyWeekQuantities_def)

text \<open>
  C1, amended: for every cell of either grid and every sequence of \<^verbatim>\<open>changeQty\<close>
  calls on it, starting from quantity 0, the resulting quantity is never negative and
  is at least \<open>max 0 (sum of the deltas)\<close>; it is the largest sum of a suffix of the
  delta sequence (the empty suffix counts 0); and it equals \<open>max 0 (sum of the deltas)\<close>
  whenever no call was clamped, that is, whenever every prefix of the sequence has a
  non-negative sum.
\<close>

theorem C1_changeQty_run:
  assumes "grid_v1 w s day meal = 0"
  shows "0 \<le> grid_v1 w (changeQty_run_v1 w day meal deltas s) day meal
    \<and> max 0 (sum_list deltas) \<le> grid_v1 w (changeQty_run_v1 w day meal deltas s) day meal
    \<and> grid_v1 w (changeQty_run_v1 w day meal deltas s) day meal
        = Max (sum_list ` set (suffixes deltas))
    \<and> ((\<forall>k\<le>length deltas. 0 \<le> sum_list (take k deltas)) \<longrightarrow>
        grid_v1 w (changeQty_run_v1 w day meal deltas s) day meal = max 0 (sum_list deltas))"
proof -
  have r: "grid_v1 w (changeQty_run_v1 w day meal deltas s) day meal = clamp_run deltas 0"
    using assms by (simp add: grid_changeQty_run_v1)
  have "(\<forall>k\<le>length deltas. 0 \<le> sum_list (take k deltas)) \<longrightarrow>
      clamp_run deltas 0 = max 0 (sum_list deltas)"
    using clamp_run_prefix_nonneg [of deltas] clamp_run_nonneg [of deltas] by auto
  then show ?thesis
    unfolding r
    using clamp_run_nonneg [of deltas] clamp_run_ge_sum [of deltas]
      clamp_run_suffixes [of deltas]
    by simp
qed

theorem C1_changeQty_run_witness:
  "grid_v1 A init_v1 Monday Meat = 0
   \<and> grid_v1 A (changeQty_run_v1 A Monday Meat [2, - 1] init_v1) Monday Meat = 1
   \<and> max 0 (sum_list [2, - 1 :: int]) = 1"
proof -
  have z: "grid_v1 A init_v1 Monday Meat = 0"
    by (simp add: grid_v1_def init_v1_def emptyWeekQuantities_def)
  have p: "\<forall>k\<le>length [2, - 1 :: int]. 0 \<le> sum_list (take k [2, - 1 :: int])"
    by (simp add: take_Cons split: nat.split)
  show ?thesis
    using C1_changeQty_run [OF z, of "[2, - 1]"] p z by simp
qed

section \<open>Totals of a week (C2)\<close>

lemma UNIV_DayName: "(UNIV :: DayName set) = {Monday, Tuesday, Wednesday, Thursday, Friday}"
  by (auto intro: DayName.exhaust)

lemma UNIV_MealType: "(UNIV :: MealType set) = {Meat, Veg, LowCarb}"
  by (auto intro: MealType.exhaust)

lemma sum_DayName: "(\<Sum>d\<in>UNIV. f d) = f Monday + f Tuesday + f Wednesday + f Thursday + (f Friday :: int)"
  by (simp add: UNIV_DayName)

lemma sum_MealType: "(\<Sum>m\<in>UNIV. g m) = g Meat + g Veg + (g LowCarb :: int)"
  by (simp add: UNIV_MealType)

lemma sumWeekMeals_v1_sum: "sumWeekMeals_v1 q = (\<Sum>d\<in>UNIV. \<Sum>m\<in>UNIV. q d m)"
  by (simp add: sumWeekMeals_v1_def DAYS_def MEAL_TYPES_def sum_DayName sum_MealType)

lemma sumWeekCost_v1_sum:
  "sumWeekCost_v1 q = (\<Sum>d\<in>UNIV. \<Sum>m\<in>UNIV.
      q d m * (if m = LowCarb then BASE_PRICE + LOW_CARB_EXTRA else BASE_PRICE))"
  by (simp add: sumWeekCost_v1_def DAYS_def MEAL_TYPES_def sum_DayName sum_MealType)

lemma sumWeekMeals_p0_sum: "sumWeekMeals_p0 q = (\<Sum>d\<in>UNIV. \<Sum>m\<in>UNIV. q d m)"
  by (simp add: sumWeekMeals_p0_def DAYS_def sum_DayName sum_MealType)

lemma sumWeekCost_p0_sum:
  "sumWeekCost_p0 q basePrice lowCarbExtra = (\<Sum>d\<in>UNIV. \<Sum>m\<in>UNIV.
      q d m * (if m = LowCarb then basePrice + lowCarbExtra else basePrice))"
  by (simp add: sumWeekCost_p0_def DAYS_def sum_DayName sum_MealType)

lemma or0_id: "or0 q = q" by (simp add: or0_def)

lemma sumWeekMeals_v3_sum: "sumWeekMeals_v3 q = (\<Sum>d\<in>UNIV. \<Sum>m\<in>UNIV. q d m)"
  by (simp add: sumWeekMeals_v3_def DAYS_def MEAL_TYPES_def sum_DayName sum_MealType or0_id)

lemma sumWeekCost_v3_sum:
  "sumWeekCost_v3 q = (\<Sum>d\<in>UNIV. \<Sum>m\<in>UNIV. q d m * priceFor m)"
  by (simp add: sumWeekCost_v3_def DAYS_def MEAL_TYPES_def sum_DayName sum_MealType or0_id)

text \<open>
  C2: for every grid, \<^verbatim>\<open>sumWeekMeals\<close> is the sum of the quantities of all day and meal
  type cells, and \<^verbatim>\<open>sumWeekCost\<close> is the sum over all cells of the quantity times the
  price of the meal type (the base price, plus the low carb extra for Low Carb), in v1
  with its constants, in p0 for any base price and extra, and in v3 with its price
  table. With the prices 90, 90 and 100, the grid with Monday Meat = 2 and Wednesday
  Veg = 1 has 3 meals and costs 270.
\<close>

theorem C2_week_totals:
  "sumWeekMeals_v1 q = (\<Sum>d\<in>UNIV. \<Sum>m\<in>UNIV. q d m)
   \<and> sumWeekCost_v1 q = (\<Sum>d\<in>UNIV. \<Sum>m\<in>UNIV.
         q d m * (if m = LowCarb then BASE_PRICE + LOW_CARB_EXTRA else BASE_PRICE))
   \<and> sumWeekMeals_p0 q = (\<Sum>d\<in>UNIV. \<Sum>m\<in>UNIV. q d m)
   \<and> sumWeekCost_p0 q basePrice lowCarbExtra = (\<Sum>d\<in>UNIV. \<Sum>m\<in>UNIV.
         q d m * (if m = LowCarb then basePrice + lowCarbExtra else basePrice))
   \<and> sumWeekMeals_v3 q = (\<Sum>d\<in>UNIV. \<Sum>m\<in>UNIV. q d m)
   \<and> sumWeekCost_v3 q = (\<Sum>d\<in>UNIV. \<Sum>m\<in>UNIV. q d m * priceFor m)
   \<and> priceFor Meat = 90 \<and> priceFor Veg = 90 \<and> priceFor LowCarb = 100
   \<and> sumWeekMeals_v1 scenario_grid = 3 \<and> sumWeekCost_v1 scenario_grid = 270
   \<and> sumWeekMeals_p0 scenario_grid = 3 \<and> sumWeekCost_p0 scenario_grid 90 10 = 270
   \<and> sumWeekMeals_v3 scenario_grid = 3 \<and> sumWeekCost_v3 scenario_grid = 270
   \<and> totalMeals_v1 (init_v1\<lparr> qtyA_v1 := scenario_grid \<rparr>) = 3
   \<and> totalCost_v1 (init_v1\<lparr> qtyA_v1 := scenario_grid \<rparr>) = 270"
proof -
  have "priceFor Meat = 90 \<and> priceFor Veg = 90 \<and> priceFor LowCarb = 100
    \<and> sumWeekMeals_v3 scenario_grid = 3 \<and> sumWeekCost_v3 scenario_grid = 270"
    by (simp add: sumWeekMeals_v3_def sumWeekCost_v3_def or0_def priceFor_def PRICE_MEAT_def
        PRICE_VEG_def PRICE_LOW_CARB_def DAYS_def MEAL_TYPES_def scenario_grid_def
        emptyWeekQuantities_def)
  moreover
  have "sumWeekMeals_v1 scenario_grid = 3 \<and> sumWeekCost_v1 scenario_grid = 270
    \<and> sumWeekMeals_p0 scenario_grid = 3 \<and> sumWeekCost_p0 scenario_grid 90 10 = 270
    \<and> totalMeals_v1 (init_v1\<lparr> qtyA_v1 := scenario_grid \<rparr>) = 3
    \<and> totalCost_v1 (init_v1\<lparr> qtyA_v1 := scenario_grid \<rparr>) = 270"
    by (simp add: sumWeekMeals_v1_def sumWeekCost_v1_def sumWeekMeals_p0_def
        sumWeekCost_p0_def DAYS_def MEAL_TYPES_def scenario_grid_def emptyWeekQuantities_def
        BASE_PRICE_def LOW_CARB_EXTRA_def totalMeals_v1_def totalCost_v1_def
        weekATotalMeals_v1_def weekATotalCost_v1_def weekBTotalMeals_v1_def
        weekBTotalCost_v1_def init_v1_def)
  ultimately show ?thesis
    using sumWeekMeals_v1_sum [of q] sumWeekCost_v1_sum [of q] sumWeekMeals_p0_sum [of q]
      sumWeekCost_p0_sum [of q basePrice lowCarbExtra] sumWeekMeals_v3_sum [of q]
      sumWeekCost_v3_sum [of q]
    by simp
qed

section \<open>Grid B while biweekly is off (C5)\<close>

text \<open>
  C5: whenever \<^verbatim>\<open>useWeekB\<close> is false, \<^verbatim>\<open>totalMeals\<close> and \<^verbatim>\<open>totalCost\<close> are the meals
  and the cost of grid A alone, whatever grid B holds: replacing grid B by any grid \<open>g\<close>
  changes neither total. The toggle that switches biweekly off keeps the quantities of
  grid B, and the totals after it are those of grid A. This holds in v1, p0 and v3.
\<close>

theorem C5_gridB_inert:
  "(\<not> useWeekB_v1 s \<longrightarrow>
      totalMeals_v1 s = sumWeekMeals_v1 (qtyA_v1 s)
    \<and> totalCost_v1 s = sumWeekCost_v1 (qtyA_v1 s)
    \<and> totalMeals_v1 (s\<lparr> qtyB_v1 := g \<rparr>) = totalMeals_v1 s
    \<and> totalCost_v1 (s\<lparr> qtyB_v1 := g \<rparr>) = totalCost_v1 s)
   \<and> (useWeekB_v1 s \<longrightarrow>
      qtyB_v1 (toggleWeekB_v1 s) = qtyB_v1 s
    \<and> totalMeals_v1 (toggleWeekB_v1 s) = sumWeekMeals_v1 (qtyA_v1 s)
    \<and> totalCost_v1 (toggleWeekB_v1 s) = sumWeekCost_v1 (qtyA_v1 s))
   \<and> (\<not> useWeekB_p0 t \<longrightarrow>
      totalMeals_p0 t = sumWeekMeals_p0 (qtyA_p0 t)
    \<and> totalCost_p0 menus t = sumWeekCost_p0 (qtyA_p0 t)
          (fst (getPricingForWeek_p0 menus (weekA_p0 t)))
          (snd (getPricingForWeek_p0 menus (weekA_p0 t)))
    \<and> totalMeals_p0 (t\<lparr> qtyB_p0 := g \<rparr>) = totalMeals_p0 t
    \<and> totalCost_p0 menus (t\<lparr> qtyB_p0 := g \<rparr>) = totalCost_p0 menus t)
   \<and> (\<not> useWeekB_v3 u \<longrightarrow>
      totalMeals_v3 u = sumWeekMeals_v3 (qtyA_v3 u)
    \<and> totalCost_v3 u = sumWeekCost_v3 (qtyA_v3 u)
    \<and> totalMeals_v3 (u\<lparr> qtyB_v3 := g \<rparr>) = totalMeals_v3 u
    \<and> totalCost_v3 (u\<lparr> qtyB_v3 := g \<rparr>) = totalCost_v3 u)"
  by (simp add: totalMeals_v1_def totalCost_v1_def weekATotalMeals_v1_def
      weekATotalCost_v1_def weekBTotalMeals_v1_def weekBTotalCost_v1_def toggleWeekB_v1_def
      totalMeals_p0_def totalCost_p0_def weekATotalMeals_p0_def weekATotalCost_p0_def
      weekBTotalMeals_p0_def weekBTotalCost_p0_def
      totalMeals_v3_def totalCost_v3_def weekATotalMeals_v3_def weekATotalCost_v3_def
      weekBTotalMeals_v3_def weekBTotalCost_v3_def split_beta)

theorem C5_gridB_inert_witness:
  "\<not> useWeekB_v1 (init_v1\<lparr> qtyB_v1 := scenario_grid \<rparr>)
   \<and> sumWeekMeals_v1 (qtyB_v1 (init_v1\<lparr> qtyB_v1 := scenario_grid \<rparr>)) = 3
   \<and> totalMeals_v1 (init_v1\<lparr> qtyB_v1 := scenario_grid \<rparr>) = 0
   \<and> totalCost_v1 (init_v1\<lparr> qtyB_v1 := scenario_grid \<rparr>) = 0
   \<and> useWeekB_v1 (init_v1\<lparr> useWeekB_v1 := True, qtyB_v1 := scenario_grid \<rparr>)
   \<and> totalMeals_v1 (init_v1\<lparr> useWeekB_v1 := True, qtyB_v1 := scenario_grid \<rparr>) = 3
   \<and> totalMeals_v1 (toggleWeekB_v1 (init_v1\<lparr> useWeekB_v1 := True, qtyB_v1 := scenario_grid \<rparr>)) = 0
   \<and> \<not> useWeekB_p0 (init_p0 []\<lparr> qtyB_p0 := scenario_grid \<rparr>)
   \<and> totalMeals_p0 (init_p0 []\<lparr> qtyB_p0 := scenario_grid \<rparr>) = 0
   \<and> totalCost_p0 [] (init_p0 []\<lparr> qtyB_p0 := scenario_grid \<rparr>) = 0
   \<and> \<not> useWeekB_v3 (init_v3\<lparr> qtyB_v3 := scenario_grid \<rparr>)
   \<and> totalMeals_v3 (init_v3\<lparr> qtyB_v3 := scenario_grid \<rparr>) = 0
   \<and> totalCost_v3 (init_v3\<lparr> qtyB_v3 := scenario_grid \<rparr>) = 0"
proof -
  have t3: "totalMeals_v1 (init_v1\<lparr> useWeekB_v1 := True, qtyB_v1 := scenario_grid \<rparr>) = 3"
    by (simp add: totalMeals_v1_def weekATotalMeals_v1_def weekBTotalMeals_v1_def
        sumWeekMeals_v1_def DAYS_def MEAL_TYPES_def scenario_grid_def emptyWeekQuantities_def
        init_v1_def)
  show ?thesis
    using C5_gridB_inert [of "init_v1\<lparr> qtyB_v1 := scenario_grid \<rparr>" scenario_grid
        "init_p0 []\<lparr> qtyB_p0 := scenario_grid \<rparr>" "[]"
        "init_v3\<lparr> qtyB_v3 := scenario_grid \<rparr>"]
      C5_gridB_inert [of "init_v1\<lparr> useWeekB_v1 := True, qtyB_v1 := scenario_grid \<rparr>"] t3
    by (simp add: init_v1_def init_p0_def init_v3_def sumWeekMeals_v1_def sumWeekCost_v1_def
        sumWeekMeals_p0_def sumWeekCost_p0_def sumWeekMeals_v3_def sumWeekCost_v3_def
        DAYS_def MEAL_TYPES_def scenario_grid_def emptyWeekQuantities_def or0_def)
qed
section \<open>Clearing the order (C7)\<close>

lemma strict_eq_finite: "Number_isFinite a \<Longrightarrow> strict_eq a b = (a = b)"
  "Number_isFinite b \<Longrightarrow> strict_eq a b = (a = b)"
  by (auto simp: strict_eq_def Number_isFinite_def split: number.splits)

lemma set_sort_numbers [simp]: "set (sort_numbers ns) = set ns"
  by (simp add: sort_numbers_def)

lemma availableWeeks_p0_ne: "availableWeeks_p0 menus \<noteq> []"
  by (simp add: availableWeeks_p0_def Let_def)

lemma availableWeeks_p0_finite: "w \<in> set (availableWeeks_p0 menus) \<Longrightarrow> Number_isFinite w"
  by (auto simp: availableWeeks_p0_def Let_def Number_isFinite_def split: if_splits)

lemma firstWeek_p0_hd: "firstWeek_p0 menus = hd (availableWeeks_p0 menus)"
  using availableWeeks_p0_ne [of menus]
  by (cases "availableWeeks_p0 menus") (simp_all add: firstWeek_p0_def)

lemma firstWeek_p0_finite: "Number_isFinite (firstWeek_p0 menus)"
  using availableWeeks_p0_ne [of menus] availableWeeks_p0_finite [of _ menus]
  by (simp add: firstWeek_p0_hd)

lemma find_other_p0:
  "find (\<lambda>w. \<not> strict_eq w (firstWeek_p0 menus)) (availableWeeks_p0 menus)
     = find (\<lambda>w. w \<noteq> firstWeek_p0 menus) (availableWeeks_p0 menus)"
  by (rule find_cong) (simp_all add: strict_eq_finite firstWeek_p0_finite)

lemma clearOrder_p0_init: "clearOrder_p0 menus t = init_p0 menus"
  by (simp add: clearOrder_p0_def init_p0_def secondWeek_p0_def Let_def)

lemma availableWeeks_p0_Nil: "availableWeeks_p0 [] = map (\<lambda>i. Num (int i + 1)) [0..<48]"
  by (simp add: availableWeeks_p0_def sort_numbers_def)

lemma weeks_p0_Nil: "firstWeek_p0 [] = Num 1 \<and> secondWeek_p0 [] = Num 2"
proof -
  have u: "[0..<48] = 0 # 1 # [2..<48]" by (simp add: upt_conv_Cons)
  show ?thesis
    by (simp add: firstWeek_p0_def secondWeek_p0_def availableWeeks_p0_Nil u strict_eq_def)
qed

text \<open>
  C7, as the code has it. The claim reads: \<^verbatim>\<open>clearOrder\<close> resets the name, the notes, both
  grids, the biweekly flag and the two week slots. The \<^verbatim>\<open>clearOrder\<close> of v3 assigns only
  the two grids and the notes: a name, an enabled biweekly flag and chosen weeks survive it.
\<close>

theorem C7_clearOrder_v3_counterexample:
  "name_v3 (clearOrder_v3 (init_v3\<lparr> name_v3 := ''Ann'', useWeekB_v3 := True,
        weekA_v3 := Num 7, weekB_v3 := Num 9 \<rparr>)) = ''Ann''
   \<and> useWeekB_v3 (clearOrder_v3 (init_v3\<lparr> name_v3 := ''Ann'', useWeekB_v3 := True,
        weekA_v3 := Num 7, weekB_v3 := Num 9 \<rparr>)) = True
   \<and> weekA_v3 (clearOrder_v3 (init_v3\<lparr> name_v3 := ''Ann'', useWeekB_v3 := True,
        weekA_v3 := Num 7, weekB_v3 := Num 9 \<rparr>)) = Num 7
   \<and> weekB_v3 (clearOrder_v3 (init_v3\<lparr> name_v3 := ''Ann'', useWeekB_v3 := True,
        weekA_v3 := Num 7, weekB_v3 := Num 9 \<rparr>)) = Num 9
   \<and> clearOrder_v3 (init_v3\<lparr> name_v3 := ''Ann'', useWeekB_v3 := True,
        weekA_v3 := Num 7, weekB_v3 := Num 9 \<rparr>) \<noteq> init_v3"
proof -
  have "name_v3 (clearOrder_v3 (init_v3\<lparr> name_v3 := ''Ann'', useWeekB_v3 := True,
        weekA_v3 := Num 7, weekB_v3 := Num 9 \<rparr>)) \<noteq> name_v3 init_v3"
    by (simp add: clearOrder_v3_def init_v3_def)
  then have "clearOrder_v3 (init_v3\<lparr> name_v3 := ''Ann'', useWeekB_v3 := True,
        weekA_v3 := Num 7, weekB_v3 := Num 9 \<rparr>) \<noteq> init_v3"
    by metis
  then show ?thesis
    by (simp add: clearOrder_v3_def)
qed

text \<open>
  C7, amended: \<^verbatim>\<open>clearOrder\<close> empties the notes and both grids in every variant. In v1 it
  restores the whole initial state (name and notes empty, both grids zero, biweekly off,
  weeks 1 and 2). In p0 it restores the initial state as well: name and notes empty,
  grids zero, biweekly off, week A the first available week and week B the first
  available week different from it (failing that, the week after week A, or 47 after
  48); that is 1 and 2 when menus.json is empty. In v3 it resets only the two grids and
  the notes: the name, the biweekly flag and both week slots keep their values.
\<close>

theorem C7_clearOrder:
  "clearOrder_v1 s = init_v1
   \<and> clearOrder_p0 menus t = init_p0 menus
   \<and> weekA_p0 (init_p0 menus) = hd (availableWeeks_p0 menus)
   \<and> weekB_p0 (init_p0 menus) =
       (case find (\<lambda>w. w \<noteq> hd (availableWeeks_p0 menus)) (availableWeeks_p0 menus) of
          Some w \<Rightarrow> w
        | None \<Rightarrow> if hd (availableWeeks_p0 menus) = Num 48 then Num 47
                  else js_plus (hd (availableWeeks_p0 menus)) (Num 1))
   \<and> weekA_p0 (init_p0 []) = Num 1 \<and> weekB_p0 (init_p0 []) = Num 2
   \<and> notes_v3 (clearOrder_v3 u) = [] \<and> qtyA_v3 (clearOrder_v3 u) = emptyWeekQuantities
   \<and> qtyB_v3 (clearOrder_v3 u) = emptyWeekQuantities
   \<and> name_v3 (clearOrder_v3 u) = name_v3 u \<and> useWeekB_v3 (clearOrder_v3 u) = useWeekB_v3 u
   \<and> weekA_v3 (clearOrder_v3 u) = weekA_v3 u \<and> weekB_v3 (clearOrder_v3 u) = weekB_v3 u"
proof -
  have b: "weekB_p0 (init_p0 menus) =
       (case find (\<lambda>w. w \<noteq> hd (availableWeeks_p0 menus)) (availableWeeks_p0 menus) of
          Some w \<Rightarrow> w
        | None \<Rightarrow> if hd (availableWeeks_p0 menus) = Num 48 then Num 47
                  else js_plus (hd (availableWeeks_p0 menus)) (Num 1))"
    using find_other_p0 [of menus] firstWeek_p0_finite [of menus]
    by (simp add: init_p0_def secondWeek_p0_def Let_def firstWeek_p0_hd strict_eq_finite)
  have v1: "clearOrder_v1 s = init_v1"
    by (simp add: clearOrder_v1_def init_v1_def)
  have a: "weekA_p0 (init_p0 menus) = hd (availableWeeks_p0 menus)"
    by (simp add: init_p0_def firstWeek_p0_hd)
  have e: "weekA_p0 (init_p0 []) = Num 1 \<and> weekB_p0 (init_p0 []) = Num 2"
    using weeks_p0_Nil by (simp add: init_p0_def)
  show ?thesis
    using v1 clearOrder_p0_init [of menus t] a b e by (simp add: clearOrder_v3_def)
qed

section \<open>Setting a week\<close>

lemma clampWeek_Num: "clampWeek menus (Num k) = Num (min 48 (max 1 k))"
  by (simp add: clampWeek_def Number_isFinite_def min_def max_def)

lemma availableWeeks_v3_finite: "w \<in> set (availableWeeks_v3 menus) \<Longrightarrow> Number_isFinite w"
  by (simp add: availableWeeks_v3_def)

lemma clampWeek_finite: "Number_isFinite (clampWeek menus n)"
proof (cases "Number_isFinite n")
  case True
  then obtain k where "n = Num k" by (cases n) (simp_all add: Number_isFinite_def)
  then show ?thesis by (simp add: clampWeek_Num Number_isFinite_def)
next
  case False
  then show ?thesis
    using availableWeeks_v3_finite [of _ menus]
    by (cases "availableWeeks_v3 menus") (simp_all add: clampWeek_def Number_isFinite_def)
qed

lemma find_other_v3:
  "Number_isFinite x \<Longrightarrow> find (\<lambda>w. \<not> strict_eq w x) ws = find (\<lambda>w. w \<noteq> x) ws"
  by (rule find_cong) (simp_all add: strict_eq_finite)

lemma setWeekSafely_rejected:
  assumes "availableWeeks_v3 menus \<noteq> []" "clampWeek menus n \<notin> set (availableWeeks_v3 menus)"
  shows "setWeekSafely menus w n s = (Some (Alert ''Menu not available''
            (Some (''Week '' @ pad2 (clampWeek menus n) @ '' is not in menus.json.''))), s)"
  using assms by (simp add: setWeekSafely_def Let_def)

lemma setWeekSafely_accepted:
  assumes "availableWeeks_v3 menus = [] \<or> clampWeek menus n \<in> set (availableWeeks_v3 menus)"
  shows "fst (setWeekSafely menus w n s) = None
       \<and> slot_v3 w (snd (setWeekSafely menus w n s)) = clampWeek menus n"
  using assms
  by (cases w) (auto simp: setWeekSafely_def Let_def slot_v3_def split: option.splits)

lemma setWeekSafely_clamp:
  "setWeekSafely menus w (Num k) s = setWeekSafely menus w (Num (min 48 (max 1 k))) s"
  by (simp add: setWeekSafely_def clampWeek_Num)

lemma find_Some_set: "find P xs = Some x \<Longrightarrow> x \<in> set xs \<and> P x"
  by (auto simp: find_Some_iff)

lemma setWeekSafely_finite:
  assumes "Number_isFinite (weekA_v3 s)" "Number_isFinite (weekB_v3 s)"
  shows "Number_isFinite (weekA_v3 (snd (setWeekSafely menus w n s)))
       \<and> Number_isFinite (weekB_v3 (snd (setWeekSafely menus w n s)))"
  using assms clampWeek_finite [of menus n] availableWeeks_v3_finite [of _ menus]
  by (cases w) (auto simp: setWeekSafely_def Let_def split: option.splits dest!: find_Some_set)

lemma weekInRange_clamp: "weekInRange (Num (min 48 (max 1 k)))"
  by (simp add: weekInRange_def)

lemma setWeekSafely_in_range:
  assumes "\<forall>w\<in>set (availableWeeks_v3 menus). weekInRange w"
    "weekInRange (weekA_v3 s)" "weekInRange (weekB_v3 s)"
  shows "weekInRange (weekA_v3 (snd (setWeekSafely menus w n s)))
       \<and> weekInRange (weekB_v3 (snd (setWeekSafely menus w n s)))"
proof -
  have c: "weekInRange (clampWeek menus n)"
  proof (cases n)
    case (Num k)
    then show ?thesis by (simp add: clampWeek_Num weekInRange_clamp)
  next
    case NaN
    then show ?thesis using assms(1)
      by (cases "availableWeeks_v3 menus") (simp_all add: clampWeek_def Number_isFinite_def weekInRange_def)
  next
    case PosInfinity
    then show ?thesis using assms(1)
      by (cases "availableWeeks_v3 menus") (simp_all add: clampWeek_def Number_isFinite_def weekInRange_def)
  next
    case NegInfinity
    then show ?thesis using assms(1)
      by (cases "availableWeeks_v3 menus") (simp_all add: clampWeek_def Number_isFinite_def weekInRange_def)
  qed
  show ?thesis
    using assms c
    by (cases w) (auto simp: setWeekSafely_def Let_def split: option.splits dest!: find_Some_set)
qed

lemma avail_48_52: "availableWeeks_v3 menus_48_52 = [Num 48, Num 52]"
  by (simp add: availableWeeks_v3_def menus_48_52_def sort_numbers_def Number_isFinite_def num_val_def)

lemma avail_3_4: "availableWeeks_v3 menus_3_4 = [Num 3, Num 4]"
  by (simp add: availableWeeks_v3_def menus_3_4_def sort_numbers_def Number_isFinite_def num_val_def)


lemma two_elems_length: "x \<in> set xs \<Longrightarrow> y \<in> set xs \<Longrightarrow> x \<noteq> y \<Longrightarrow> 1 < length xs"
  by (cases xs; cases "tl xs") auto

lemma find_exists: "x \<in> set xs \<Longrightarrow> P x \<Longrightarrow> \<exists>y. find P xs = Some y"
  by (cases "find P xs") (auto simp: find_None_iff)

lemma pickWeek_v1_same:
  assumes "weekA_v1 s \<noteq> NaN"
  shows "pickWeek_v1 B (weekA_v1 s) s
       = (Some (Alert ''Not allowed'' (Some ''Week B cannot be the same as Week A.'')), s)"
  using assms by (simp add: pickWeek_v1_def strict_eq_def)

lemma pickWeek_p0_same:
  assumes "weekA_p0 t \<noteq> NaN"
  shows "pickWeek_p0 menus0 B (weekA_p0 t) t
       = (Some (Alert ''Not allowed'' (Some ''Week B cannot be the same as Week A.'')), t)"
  using assms by (simp add: pickWeek_p0_def strict_eq_def)

lemma setWeekSafely_B_same_rejected:
  assumes "weekA_v3 u = Num a" "1 \<le> a" "a \<le> 48"
    "availableWeeks_v3 menus \<noteq> []" "Num a \<notin> set (availableWeeks_v3 menus)"
  shows "setWeekSafely menus B (Num a) u = (Some (Alert ''Menu not available''
            (Some (''Week '' @ pad2 (Num a) @ '' is not in menus.json.''))), u)"
  using assms setWeekSafely_rejected [of menus "Num a" B u] by (simp add: clampWeek_Num)

lemma setWeekSafely_B_same_resolved:
  assumes "useWeekB_v3 u" "weekA_v3 u = Num a" "1 \<le> a" "a \<le> 48"
    "Num a \<in> set (availableWeeks_v3 menus)" "x \<in> set (availableWeeks_v3 menus)" "x \<noteq> Num a"
  shows "fst (setWeekSafely menus B (Num a) u) = None
       \<and> weekB_v3 (snd (setWeekSafely menus B (Num a) u)) = Num a
       \<and> find (\<lambda>x. x \<noteq> Num a) (availableWeeks_v3 menus)
           = Some (weekA_v3 (snd (setWeekSafely menus B (Num a) u)))
       \<and> weekA_v3 (snd (setWeekSafely menus B (Num a) u))
           \<noteq> weekB_v3 (snd (setWeekSafely menus B (Num a) u))"
proof -
  have len: "1 < length (availableWeeks_v3 menus)"
    using two_elems_length [OF assms(5) assms(6)] assms(7) by simp
  obtain alt where alt: "find (\<lambda>x. x \<noteq> Num a) (availableWeeks_v3 menus) = Some alt"
    using find_exists [of x "availableWeeks_v3 menus" "\<lambda>x. x \<noteq> Num a"] assms(6,7) by auto
  then have ne: "alt \<noteq> Num a" by (auto dest: find_Some_set)
  have f: "find (\<lambda>w. \<not> strict_eq w (Num a)) (availableWeeks_v3 menus) = Some alt"
    using alt by (simp add: find_other_v3 Number_isFinite_def)
  have c: "clampWeek menus (Num a) = Num a"
    using assms(3,4) by (simp add: clampWeek_Num)
  show ?thesis
    using assms(1,2,5) len f alt ne
    by (simp add: setWeekSafely_def Let_def c strict_eq_def)
qed

lemma setWeekSafely_B_same_stored:
  assumes "weekA_v3 u = Num a" "1 \<le> a" "a \<le> 48"
    "availableWeeks_v3 menus = [] \<or> set (availableWeeks_v3 menus) = {Num a}"
  shows "setWeekSafely menus B (Num a) u = (None, u\<lparr> weekB_v3 := Num a \<rparr>)"
proof -
  have c: "clampWeek menus (Num a) = Num a"
    using assms(2,3) by (simp add: clampWeek_Num)
  have f: "find (\<lambda>w. \<not> strict_eq w (Num a)) (availableWeeks_v3 menus) = None"
    using assms(4) by (auto simp: find_None_iff strict_eq_def)
  show ?thesis
    using assms(4) f by (auto simp: setWeekSafely_def Let_def c)
qed

lemma setWeekSafely_cases:
  "(fst (setWeekSafely menus w n s) = None
      \<and> slot_v3 w (snd (setWeekSafely menus w n s)) = clampWeek menus n)
   \<or> (fst (setWeekSafely menus w n s) \<noteq> None \<and> snd (setWeekSafely menus w n s) = s)"
proof (cases "availableWeeks_v3 menus = [] \<or> clampWeek menus n \<in> set (availableWeeks_v3 menus)")
  case True
  then show ?thesis using setWeekSafely_accepted [of menus n w s] by simp
next
  case False
  then show ?thesis using setWeekSafely_rejected [of menus n w s] by simp
qed

lemma avail_Nil: "availableWeeks_v3 [] = []"
  by (simp add: availableWeeks_v3_def sort_numbers_def)

lemma pad2_examples: "pad2 (Num 5) = ''05'' \<and> pad2 (Num 48) = ''48'' \<and> pad2 (Num 1) = ''01''"
  by (simp add: pad2_def padStart2_def String_number_def String_int_def String_nat.simps
      digit_char_def)

subsection \<open>A week number outside 1..48 (C3)\<close>

text \<open>
  C3, as the code has it. The claim reads: setting a slot to a week outside 1..48, such as
  49, is rejected as out of range and the slot keeps its value; no clamped value is
  assigned. \<^verbatim>\<open>setWeekSafely\<close> clamps instead: with no menus loaded, setting week A to 49
  raises no alert and stores 48 over the 1 the slot held.
\<close>

theorem C3_out_of_range_counterexample:
  "setWeekSafely [] A (Num 49) init_v3 = (None, init_v3\<lparr> weekA_v3 := Num 48 \<rparr>)
   \<and> weekA_v3 init_v3 = Num 1"
  by (simp add: setWeekSafely_def clampWeek_Num avail_Nil strict_eq_def init_v3_def)

text \<open>
  C3, amended: \<^verbatim>\<open>setWeekSafely\<close> never rejects a finite week number for lying outside
  1..48. It clamps the number into 1..48 (a number above 48 becomes 48, a number below 1
  becomes 1) and then behaves exactly as it does on the clamped number: when menus.json
  lists weeks and the clamped week is not among them, it raises the alert "Menu not
  available" and leaves the state as it was; otherwise it raises no alert and stores the
  clamped week in the slot. A week outside 1..48 is refused as such only when the order
  is sent in v1: \<^verbatim>\<open>sendWhatsApp\<close> alerts "Week A must be between 1 and 48." (for week B
  likewise, when biweekly is on) and sends nothing.
\<close>

theorem C3_setWeekSafely_clamps:
  "setWeekSafely menus w (Num k) s = setWeekSafely menus w (Num (min 48 (max 1 k))) s
   \<and> (48 < k \<longrightarrow> clampWeek menus (Num k) = Num 48)
   \<and> (k < 1 \<longrightarrow> clampWeek menus (Num k) = Num 1)
   \<and> (availableWeeks_v3 menus = [] \<or> clampWeek menus (Num k) \<in> set (availableWeeks_v3 menus) \<longrightarrow>
        fst (setWeekSafely menus w (Num k) s) = None
      \<and> slot_v3 w (snd (setWeekSafely menus w (Num k) s)) = clampWeek menus (Num k))
   \<and> (availableWeeks_v3 menus \<noteq> [] \<and> clampWeek menus (Num k) \<notin> set (availableWeeks_v3 menus) \<longrightarrow>
        setWeekSafely menus w (Num k) s = (Some (Alert ''Menu not available''
          (Some (''Week '' @ pad2 (clampWeek menus (Num k)) @ '' is not in menus.json.''))), s))
   \<and> (js_less (weekA_v1 t) (Num 1) \<or> js_less (Num 48) (weekA_v1 t) \<longrightarrow>
        sendWhatsApp_v1 t = Inl (Alert ''Week A must be between 1 and 48.'' None))
   \<and> (\<not> (js_less (weekA_v1 t) (Num 1) \<or> js_less (Num 48) (weekA_v1 t)) \<and> useWeekB_v1 t
        \<and> (js_less (weekB_v1 t) (Num 1) \<or> js_less (Num 48) (weekB_v1 t)) \<longrightarrow>
        sendWhatsApp_v1 t = Inl (Alert ''Week B must be between 1 and 48.'' None))"
proof -
  have a: "availableWeeks_v3 menus = [] \<or> clampWeek menus (Num k) \<in> set (availableWeeks_v3 menus) \<longrightarrow>
        fst (setWeekSafely menus w (Num k) s) = None
      \<and> slot_v3 w (snd (setWeekSafely menus w (Num k) s)) = clampWeek menus (Num k)"
    using setWeekSafely_accepted [of menus "Num k" w s] by blast
  have r: "availableWeeks_v3 menus \<noteq> [] \<and> clampWeek menus (Num k) \<notin> set (availableWeeks_v3 menus) \<longrightarrow>
        setWeekSafely menus w (Num k) s = (Some (Alert ''Menu not available''
          (Some (''Week '' @ pad2 (clampWeek menus (Num k)) @ '' is not in menus.json.''))), s)"
    using setWeekSafely_rejected [of menus "Num k" w s] by blast
  have c: "(48 < k \<longrightarrow> clampWeek menus (Num k) = Num 48)
      \<and> (k < 1 \<longrightarrow> clampWeek menus (Num k) = Num 1)"
    by (simp add: clampWeek_Num)
  have v: "(js_less (weekA_v1 t) (Num 1) \<or> js_less (Num 48) (weekA_v1 t) \<longrightarrow>
        sendWhatsApp_v1 t = Inl (Alert ''Week A must be between 1 and 48.'' None))
   \<and> (\<not> (js_less (weekA_v1 t) (Num 1) \<or> js_less (Num 48) (weekA_v1 t)) \<and> useWeekB_v1 t
        \<and> (js_less (weekB_v1 t) (Num 1) \<or> js_less (Num 48) (weekB_v1 t)) \<longrightarrow>
        sendWhatsApp_v1 t = Inl (Alert ''Week B must be between 1 and 48.'' None))"
    by (simp add: sendWhatsApp_v1_def)
  show ?thesis
    using setWeekSafely_clamp [of menus w k s] a r c v by blast
qed

theorem C3_setWeekSafely_clamps_witness:
  "fst (setWeekSafely [] B (Num 49) init_v3) = None
   \<and> weekB_v3 (snd (setWeekSafely [] B (Num 49) init_v3)) = Num 48
   \<and> setWeekSafely menus_3_4 A (Num 0) init_v3
       = (Some (Alert ''Menu not available'' (Some ''Week 01 is not in menus.json.'')), init_v3)
   \<and> sendWhatsApp_v1 (init_v1\<lparr> weekA_v1 := Num 49 \<rparr>)
       = Inl (Alert ''Week A must be between 1 and 48.'' None)
   \<and> sendWhatsApp_v1 (init_v1\<lparr> useWeekB_v1 := True, weekB_v1 := Num 0 \<rparr>)
       = Inl (Alert ''Week B must be between 1 and 48.'' None)"
  using C3_setWeekSafely_clamps [of "[]" B 49 init_v3 "init_v1\<lparr> weekA_v1 := Num 49 \<rparr>",
      THEN conjunct2]
    C3_setWeekSafely_clamps [of menus_3_4 A 0 init_v3
      "init_v1\<lparr> useWeekB_v1 := True, weekB_v1 := Num 0 \<rparr>", THEN conjunct2]
  by (simp add: clampWeek_Num avail_Nil avail_3_4 slot_v3_def pad2_examples init_v1_def)

subsection \<open>Setting week B to the week of slot A (C4)\<close>

text \<open>
  C4, as the code has it. The claim reads: while biweekly is on, setting week B to the
  week slot A holds is rejected or resolved to distinct weeks, and never completes with
  week A equal to week B. With no menus loaded \<^verbatim>\<open>setWeekSafely\<close> has no week to resolve
  to: setting week B to 1 while week A is 1 raises no alert and stores 1, so the two
  slots are equal afterwards.
\<close>

theorem C4_equal_weeks_counterexample:
  "setWeekSafely [] B (weekA_v3 (init_v3\<lparr> useWeekB_v3 := True \<rparr>))
       (init_v3\<lparr> useWeekB_v3 := True \<rparr>)
     = (None, init_v3\<lparr> useWeekB_v3 := True, weekB_v3 := Num 1 \<rparr>)
   \<and> weekA_v3 (init_v3\<lparr> useWeekB_v3 := True, weekB_v3 := Num 1 \<rparr>)
     = weekB_v3 (init_v3\<lparr> useWeekB_v3 := True, weekB_v3 := Num 1 \<rparr>)"
  by (simp add: setWeekSafely_def clampWeek_Num avail_Nil strict_eq_def init_v3_def)

text \<open>
  C4, amended: setting week B to the week slot A holds is rejected by \<^verbatim>\<open>pickWeek\<close> in v1
  and in p0, with the alert "Not allowed" and the state unchanged (biweekly on or off).
  In v3, while biweekly is on and slot A holds a week \<open>a\<close> in 1..48,
  \<^verbatim>\<open>setWeekSafely\<close> does one of three things. When menus.json lists weeks and \<open>a\<close> is not
  among them, it raises "Menu not available" and changes nothing. When menus.json lists
  \<open>a\<close> and another week, it stores \<open>a\<close> in slot B and moves slot A to the first
  available week different from \<open>a\<close>, so the slots differ afterwards. When no menus are
  loaded, or \<open>a\<close> is the only week listed, it stores \<open>a\<close> in slot B without an alert
  and the operation completes with week A equal to week B.
\<close>

theorem C4_same_week:
  "(weekA_v1 s \<noteq> NaN \<longrightarrow> pickWeek_v1 B (weekA_v1 s) s
        = (Some (Alert ''Not allowed'' (Some ''Week B cannot be the same as Week A.'')), s))
   \<and> (weekA_p0 t \<noteq> NaN \<longrightarrow> pickWeek_p0 menus0 B (weekA_p0 t) t
        = (Some (Alert ''Not allowed'' (Some ''Week B cannot be the same as Week A.'')), t))
   \<and> (useWeekB_v3 u \<and> weekA_v3 u = Num a \<and> 1 \<le> a \<and> a \<le> 48 \<longrightarrow>
        (availableWeeks_v3 menus \<noteq> [] \<and> Num a \<notin> set (availableWeeks_v3 menus) \<longrightarrow>
           setWeekSafely menus B (Num a) u = (Some (Alert ''Menu not available''
              (Some (''Week '' @ pad2 (Num a) @ '' is not in menus.json.''))), u))
      \<and> (Num a \<in> set (availableWeeks_v3 menus)
           \<and> (\<exists>x \<in> set (availableWeeks_v3 menus). x \<noteq> Num a) \<longrightarrow>
           fst (setWeekSafely menus B (Num a) u) = None
         \<and> weekB_v3 (snd (setWeekSafely menus B (Num a) u)) = Num a
         \<and> find (\<lambda>x. x \<noteq> Num a) (availableWeeks_v3 menus)
             = Some (weekA_v3 (snd (setWeekSafely menus B (Num a) u)))
         \<and> weekA_v3 (snd (setWeekSafely menus B (Num a) u))
             \<noteq> weekB_v3 (snd (setWeekSafely menus B (Num a) u)))
      \<and> (availableWeeks_v3 menus = [] \<or> set (availableWeeks_v3 menus) = {Num a} \<longrightarrow>
           setWeekSafely menus B (Num a) u = (None, u\<lparr> weekB_v3 := Num a \<rparr>)
         \<and> weekA_v3 (snd (setWeekSafely menus B (Num a) u))
             = weekB_v3 (snd (setWeekSafely menus B (Num a) u))))"
proof (intro conjI impI)
  assume "weekA_v1 s \<noteq> NaN"
  then show "pickWeek_v1 B (weekA_v1 s) s
      = (Some (Alert ''Not allowed'' (Some ''Week B cannot be the same as Week A.'')), s)"
    by (rule pickWeek_v1_same)
next
  assume "weekA_p0 t \<noteq> NaN"
  then show "pickWeek_p0 menus0 B (weekA_p0 t) t
      = (Some (Alert ''Not allowed'' (Some ''Week B cannot be the same as Week A.'')), t)"
    by (rule pickWeek_p0_same)
next
  assume "useWeekB_v3 u \<and> weekA_v3 u = Num a \<and> 1 \<le> a \<and> a \<le> 48"
    "availableWeeks_v3 menus \<noteq> [] \<and> Num a \<notin> set (availableWeeks_v3 menus)"
  then show "setWeekSafely menus B (Num a) u = (Some (Alert ''Menu not available''
              (Some (''Week '' @ pad2 (Num a) @ '' is not in menus.json.''))), u)"
    by (simp add: setWeekSafely_B_same_rejected)
next
  assume h: "useWeekB_v3 u \<and> weekA_v3 u = Num a \<and> 1 \<le> a \<and> a \<le> 48"
    "Num a \<in> set (availableWeeks_v3 menus) \<and> (\<exists>x \<in> set (availableWeeks_v3 menus). x \<noteq> Num a)"
  then obtain x where x: "x \<in> set (availableWeeks_v3 menus)" "x \<noteq> Num a" by auto
  note r = setWeekSafely_B_same_resolved [of u a menus x]
  show "fst (setWeekSafely menus B (Num a) u) = None" using r h x by simp
  show "weekB_v3 (snd (setWeekSafely menus B (Num a) u)) = Num a" using r h x by simp
  show "find (\<lambda>x. x \<noteq> Num a) (availableWeeks_v3 menus)
             = Some (weekA_v3 (snd (setWeekSafely menus B (Num a) u)))" using r h x by simp
  show "weekA_v3 (snd (setWeekSafely menus B (Num a) u))
             \<noteq> weekB_v3 (snd (setWeekSafely menus B (Num a) u))" using r h x by blast
next
  assume h: "useWeekB_v3 u \<and> weekA_v3 u = Num a \<and> 1 \<le> a \<and> a \<le> 48"
    "availableWeeks_v3 menus = [] \<or> set (availableWeeks_v3 menus) = {Num a}"
  then show r: "setWeekSafely menus B (Num a) u = (None, u\<lparr> weekB_v3 := Num a \<rparr>)"
    by (simp add: setWeekSafely_B_same_stored)
  show "weekA_v3 (snd (setWeekSafely menus B (Num a) u))
             = weekB_v3 (snd (setWeekSafely menus B (Num a) u))"
    using h by (simp add: r)
qed


theorem C4_same_week_witness:
  "pickWeek_v1 B (Num 1) (init_v1\<lparr> useWeekB_v1 := True \<rparr>)
     = (Some (Alert ''Not allowed'' (Some ''Week B cannot be the same as Week A.'')),
        init_v1\<lparr> useWeekB_v1 := True \<rparr>)
   \<and> pickWeek_p0 [] B (Num 1) (init_p0 [])
     = (Some (Alert ''Not allowed'' (Some ''Week B cannot be the same as Week A.'')), init_p0 [])
   \<and> weekB_v3 (snd (setWeekSafely menus_3_4 B (Num 3)
        (init_v3\<lparr> useWeekB_v3 := True, weekA_v3 := Num 3, weekB_v3 := Num 4 \<rparr>))) = Num 3
   \<and> weekA_v3 (snd (setWeekSafely menus_3_4 B (Num 3)
        (init_v3\<lparr> useWeekB_v3 := True, weekA_v3 := Num 3, weekB_v3 := Num 4 \<rparr>))) = Num 4
   \<and> setWeekSafely menus_3_4 B (Num 5)
        (init_v3\<lparr> useWeekB_v3 := True, weekA_v3 := Num 5, weekB_v3 := Num 4 \<rparr>)
     = (Some (Alert ''Menu not available'' (Some ''Week 05 is not in menus.json.'')),
        init_v3\<lparr> useWeekB_v3 := True, weekA_v3 := Num 5, weekB_v3 := Num 4 \<rparr>)
   \<and> setWeekSafely [] B (Num 1) (init_v3\<lparr> useWeekB_v3 := True \<rparr>)
     = (None, init_v3\<lparr> useWeekB_v3 := True, weekB_v3 := Num 1 \<rparr>)"
proof -
  have p: "weekA_p0 (init_p0 []) = Num 1"
    using weeks_p0_Nil by (simp add: init_p0_def)
  show ?thesis
    using C4_same_week [where s = "init_v1\<lparr> useWeekB_v1 := True \<rparr>" and t = "init_p0 []"
        and ?menus0.0 = "[]" and menus = menus_3_4 and a = 3
        and u = "init_v3\<lparr> useWeekB_v3 := True, weekA_v3 := Num 3, weekB_v3 := Num 4 \<rparr>"]
      C4_same_week [where menus = menus_3_4 and a = 5
        and u = "init_v3\<lparr> useWeekB_v3 := True, weekA_v3 := Num 5, weekB_v3 := Num 4 \<rparr>"]
      C4_same_week [where menus = "[]" and a = 1 and u = "init_v3\<lparr> useWeekB_v3 := True \<rparr>"]
      p
    by (simp add: avail_Nil avail_3_4 pad2_examples init_v1_def init_v3_def)
qed

subsection \<open>The values a week slot can receive (C10)\<close>

text \<open>
  C10, as the code has it. The claim reads: \<^verbatim>\<open>clampWeek\<close> maps a non-finite number to the
  first available week (or 1) and a finite one into 1..48, so \<^verbatim>\<open>setWeekSafely\<close> never
  stores a week outside 1..48 and never stores \<^verbatim>\<open>NaN\<close>. The weeks of menus.json are not
  clamped: with the weeks 48 and 52 listed, biweekly on, week A 48 and week B 52,
  setting week B to 51 stores 48 in slot B and moves slot A to 52.
\<close>

theorem C10_week_outside_range_counterexample:
  "setWeekSafely menus_48_52 B (Num 51)
      (init_v3\<lparr> useWeekB_v3 := True, weekA_v3 := Num 48, weekB_v3 := Num 52 \<rparr>)
    = (None, init_v3\<lparr> useWeekB_v3 := True, weekA_v3 := Num 52, weekB_v3 := Num 48 \<rparr>)
   \<and> \<not> weekInRange (Num 52)"
  by (simp add: setWeekSafely_def clampWeek_Num avail_48_52 strict_eq_def init_v3_def
      weekInRange_def)

text \<open>
  C10, amended: \<^verbatim>\<open>clampWeek\<close> maps a non-finite number (\<^verbatim>\<open>NaN\<close>, an infinity) to the first
  available week, or 1 when none is available, and a finite number into 1..48; its
  result is always finite. A call of \<^verbatim>\<open>setWeekSafely\<close> either raises an alert and leaves
  the state as it was, or stores the result of \<^verbatim>\<open>clampWeek\<close> in its slot. It never stores
  \<^verbatim>\<open>NaN\<close> or an infinity: finite slots stay finite. It keeps both slots within 1..48
  provided every available week lies within 1..48; a week of menus.json outside 1..48
  can reach a slot, as the first available week on a non-finite argument or as the
  alternative week given to the other slot.
\<close>

theorem C10_setWeekSafely_values:
  "(\<not> Number_isFinite n \<longrightarrow>
      clampWeek menus n = (case availableWeeks_v3 menus of [] \<Rightarrow> Num 1 | x # _ \<Rightarrow> x))
   \<and> clampWeek menus (Num k) = Num (min 48 (max 1 k))
   \<and> weekInRange (clampWeek menus (Num k))
   \<and> Number_isFinite (clampWeek menus n)
   \<and> ((fst (setWeekSafely menus w n s) = None
         \<and> slot_v3 w (snd (setWeekSafely menus w n s)) = clampWeek menus n)
       \<or> (fst (setWeekSafely menus w n s) \<noteq> None \<and> snd (setWeekSafely menus w n s) = s))
   \<and> (Number_isFinite (weekA_v3 s) \<and> Number_isFinite (weekB_v3 s) \<longrightarrow>
        Number_isFinite (weekA_v3 (snd (setWeekSafely menus w n s)))
      \<and> Number_isFinite (weekB_v3 (snd (setWeekSafely menus w n s))))
   \<and> ((\<forall>x\<in>set (availableWeeks_v3 menus). weekInRange x)
        \<and> weekInRange (weekA_v3 s) \<and> weekInRange (weekB_v3 s) \<longrightarrow>
        weekInRange (weekA_v3 (snd (setWeekSafely menus w n s)))
      \<and> weekInRange (weekB_v3 (snd (setWeekSafely menus w n s))))"
proof -
  have a: "\<not> Number_isFinite n \<longrightarrow>
      clampWeek menus n = (case availableWeeks_v3 menus of [] \<Rightarrow> Num 1 | x # _ \<Rightarrow> x)"
    by (simp add: clampWeek_def)
  have b: "weekInRange (clampWeek menus (Num k))"
    by (simp add: clampWeek_Num weekInRange_clamp)
  show ?thesis
    using a b clampWeek_Num [of menus k] clampWeek_finite [of menus n]
      setWeekSafely_cases [of menus w n s] setWeekSafely_finite [of s menus w n]
      setWeekSafely_in_range [of menus s w n]
    by blast
qed

theorem C10_setWeekSafely_values_witness:
  "clampWeek menus_3_4 NaN = Num 3 \<and> clampWeek [] PosInfinity = Num 1
   \<and> clampWeek [] (Num 49) = Num 48 \<and> clampWeek [] (Num (- 2)) = Num 1
   \<and> weekInRange (weekA_v3 (snd (setWeekSafely menus_3_4 A NaN
        (init_v3\<lparr> useWeekB_v3 := True, weekA_v3 := Num 4, weekB_v3 := Num 3 \<rparr>))))
   \<and> weekInRange (weekB_v3 (snd (setWeekSafely menus_3_4 A NaN
        (init_v3\<lparr> useWeekB_v3 := True, weekA_v3 := Num 4, weekB_v3 := Num 3 \<rparr>))))
   \<and> Number_isFinite (weekA_v3 (snd (setWeekSafely menus_3_4 A NaN
        (init_v3\<lparr> useWeekB_v3 := True, weekA_v3 := Num 4, weekB_v3 := Num 3 \<rparr>))))"
  using C10_setWeekSafely_values [of NaN menus_3_4 49 A
      "init_v3\<lparr> useWeekB_v3 := True, weekA_v3 := Num 4, weekB_v3 := Num 3 \<rparr>"]
    C10_setWeekSafely_values [of PosInfinity "[]" 49]
    C10_setWeekSafely_values [of PosInfinity "[]" "- 2"]
  by (simp add: avail_Nil avail_3_4 Number_isFinite_def weekInRange_def init_v3_def)

section \<open>The texts\<close>

subsection \<open>Lines, blanks and trimming\<close>

lemma join_append:
  "xs \<noteq> [] \<Longrightarrow> ys \<noteq> [] \<Longrightarrow> join sep (xs @ ys) = join sep xs @ sep @ join sep ys"
  by (induction sep xs rule: join.induct) (auto simp: neq_Nil_conv)

lemma popBlank_Nil: "popBlank [] = []"
  by (simp add: popBlank.simps)

lemma popBlank_snoc: "popBlank (xs @ [x]) = (if x = [] then popBlank xs else xs @ [x])"
  by (subst popBlank.simps) simp

lemma popBlank_id: "ls = [] \<or> last ls \<noteq> [] \<Longrightarrow> popBlank ls = ls"
  by (subst popBlank.simps) auto

lemma set_popBlank: "set (popBlank ls) \<subseteq> set ls"
proof (induction ls rule: rev_induct)
  case Nil
  then show ?case by (simp add: popBlank_Nil)
next
  case (snoc x xs)
  then show ?case by (auto simp: popBlank_snoc)
qed

lemma dropWhile_all: "(\<forall>x\<in>set (dropWhile P s). P x) = (\<forall>x\<in>set s. P x)"
  by (induction s) auto

lemma trim_Nil_iff: "trim s = [] \<longleftrightarrow> (\<forall>c\<in>set s. isWhiteSpace c)"
  by (simp add: trim_def dropWhile_eq_Nil_conv dropWhile_all)

lemma trim_Nil: "trim [] = []"
  by (simp add: trim_def)

lemma trim_surrounding:
  "\<exists>a b. n = a @ trim n @ b \<and> (\<forall>c\<in>set a. isWhiteSpace c) \<and> (\<forall>c\<in>set b. isWhiteSpace c)"
proof -
  let ?m = "dropWhile isWhiteSpace n"
  have 1: "n = takeWhile isWhiteSpace n @ ?m" by simp
  have "rev (takeWhile isWhiteSpace (rev ?m) @ dropWhile isWhiteSpace (rev ?m)) = ?m"
    by (simp only: takeWhile_dropWhile_id rev_rev_ident)
  then have 2: "?m = trim n @ rev (takeWhile isWhiteSpace (rev ?m))"
    by (simp only: rev_append trim_def)
  have "n = takeWhile isWhiteSpace n @ trim n @ rev (takeWhile isWhiteSpace (rev ?m))"
    using 1 2 by metis
  moreover have "\<forall>c\<in>set (takeWhile isWhiteSpace n). isWhiteSpace c"
    by (auto dest: set_takeWhileD)
  moreover have "\<forall>c\<in>set (rev (takeWhile isWhiteSpace (rev ?m))). isWhiteSpace c"
    by (auto dest: set_takeWhileD)
  ultimately show ?thesis by blast
qed

lemma trim_ends:
  assumes "trim n \<noteq> []"
  shows "\<not> isWhiteSpace (hd (trim n)) \<and> \<not> isWhiteSpace (last (trim n))"
proof -
  let ?m = "dropWhile isWhiteSpace n"
  let ?d = "dropWhile isWhiteSpace (rev ?m)"
  have d: "?d \<noteq> []" using assms unfolding trim_def rev_is_Nil_conv .
  have m: "?m \<noteq> []"
  proof
    assume "?m = []"
    then have "?d = []" by (simp only: rev.simps(1) dropWhile.simps(1))
    with d show False by (simp only: not_True_eq_False simp_thms)
  qed
  have "last (trim n) = hd ?d" using d by (simp add: trim_def last_rev)
  moreover have "\<not> isWhiteSpace (hd ?d)" using d by (rule hd_dropWhile)
  moreover have "hd (trim n) = last ?d" using d by (simp add: trim_def hd_rev)
  moreover have "last ?d = last (rev ?m)"
    using d by (metis append_Nil2 last_appendR takeWhile_dropWhile_id)
  moreover have "last (rev ?m) = hd ?m" using m by (simp add: last_rev)
  moreover have "\<not> isWhiteSpace (hd ?m)" using m by (rule hd_dropWhile)
  ultimately show ?thesis by simp
qed

lemma fold_lines_invariant:
  assumes "\<And>x ls. \<forall>l\<in>set ls. P l \<Longrightarrow> \<forall>l\<in>set (f x ls). P l" "\<forall>l\<in>set ls0. P l"
  shows "\<forall>l\<in>set (fold f xs ls0). P l"
  using assms(2)
proof (induction xs arbitrary: ls0)
  case Nil
  then show ?case by simp
next
  case (Cons x xs)
  have "\<forall>l\<in>set (f x ls0). P l" using Cons.prems by (rule assms(1))
  then show ?case using Cons.IH by simp
qed

lemma not_notes_DayName: "\<not> notesLine (DayName_str d @ r)"
  by (cases d) (simp_all add: notesLine_def DayName_str_def)

lemma not_notes_DAY_SHORT: "\<not> notesLine (DAY_SHORT d @ r)"
  by (cases d) (simp_all add: notesLine_def DAY_SHORT_def)

lemma not_notes_literals: "\<not> notesLine ''Meal Order''" "\<not> notesLine []"
  by (simp_all add: notesLine_def)

lemma not_notes_nameLine: "\<not> notesLine (nameLine n)"
  by (simp add: notesLine_def nameLine_def)

lemma not_notes_totalLine: "\<not> notesLine (totalLine s)"
  by (simp add: notesLine_def totalLine_def)

lemma totalLine_neq_Nil: "totalLine s \<noteq> []"
  by (simp add: totalLine_def)

lemma not_notes_weekBlock_v1:
  assumes "\<forall>l\<in>set ls. \<not> notesLine l"
  shows "\<forall>l\<in>set (weekBlock_v1 week qty meals cost ls). \<not> notesLine l"
proof -
  have "\<forall>l\<in>set (fold (\<lambda>d lines. let parts = dayParts_v1 qty d in
             if parts \<noteq> [] then lines @ [''- '' @ DayName_str d @ '': '' @ join '' + '' parts]
             else lines) DAYS (ls @ [''Week '' @ pad2 week @ '':''])). \<not> notesLine l"
    by (rule fold_lines_invariant) (use assms in \<open>auto simp: Let_def notesLine_def\<close>)
  then show ?thesis
    by (auto simp: weekBlock_v1_def Let_def notesLine_def)
qed

lemma orderLines_v1_blank_notes:
  assumes "trim (notes_v1 s) = []"
  shows "orderLines_v1 s = orderLines_v1 (s\<lparr> notes_v1 := [] \<rparr>)"
  using assms
  by (simp add: orderLines_v1_def Let_def trim_Nil totalMeals_v1_def totalCost_v1_def
      weekATotalMeals_v1_def weekATotalCost_v1_def weekBTotalMeals_v1_def weekBTotalCost_v1_def)

lemma orderLines_v1_notes:
  assumes "trim (notes_v1 s) \<noteq> []"
  shows "orderLines_v1 s = orderLines_v1 (s\<lparr> notes_v1 := [] \<rparr>) @ [[], ''Notes: '' @ trim (notes_v1 s)]"
  using assms
  by (simp add: orderLines_v1_def Let_def trim_Nil totalMeals_v1_def totalCost_v1_def
      weekATotalMeals_v1_def weekATotalCost_v1_def weekBTotalMeals_v1_def weekBTotalCost_v1_def)

lemma orderLines_v1_no_notes:
  assumes "trim (notes_v1 s) = []"
  shows "\<forall>l\<in>set (orderLines_v1 s). \<not> notesLine l"
proof -
  have 0: "\<forall>l\<in>set [''Meal Order'',
                    ''Name: '' @ (if trim (name_v1 s) \<noteq> [] then trim (name_v1 s) else ''[name]''),
                    []]. \<not> notesLine l"
    by (simp add: notesLine_def)
  note 1 = not_notes_weekBlock_v1 [OF 0]
  note 2 = not_notes_weekBlock_v1 [OF 1]
  show ?thesis
    using assms 1 2
    by (auto simp: orderLines_v1_def Let_def notesLine_def)
qed

lemma buildOrderText_v1_notes:
  assumes "trim (notes_v1 s) \<noteq> []"
  shows "buildOrderText_v1 s = buildOrderText_v1 (s\<lparr> notes_v1 := [] \<rparr>)
           @ newline @ newline @ ''Notes: '' @ trim (notes_v1 s)"
proof -
  have ne: "orderLines_v1 (s\<lparr> notes_v1 := [] \<rparr>) \<noteq> []"
    by (simp add: orderLines_v1_def Let_def trim_Nil)
  have "join newline (orderLines_v1 (s\<lparr> notes_v1 := [] \<rparr>) @ [[], ''Notes: '' @ trim (notes_v1 s)])
      = join newline (orderLines_v1 (s\<lparr> notes_v1 := [] \<rparr>)) @ newline
          @ join newline [[], ''Notes: '' @ trim (notes_v1 s)]"
    using ne by (intro join_append) simp_all
  then show ?thesis
    using assms by (simp add: buildOrderText_v1_def orderLines_v1_notes)
qed

lemma buildOrderText_v1_init: "buildOrderText_v1 init_v1
   = join newline [''Meal Order'', ''Name: [name]'', [], ''Week 01:'',
       ''Total meals (Week 01): 0'', ''Cost (Week 01): R0.00'', [],
       ''Total meals: 0'', ''Total cost: R0.00'']"
  by (simp add: buildOrderText_v1_def orderLines_v1_def weekBlock_v1_def dayParts_v1_def
      totalMeals_v1_def
      totalCost_v1_def weekATotalMeals_v1_def weekATotalCost_v1_def weekBTotalMeals_v1_def
      weekBTotalCost_v1_def sumWeekMeals_v1_def sumWeekCost_v1_def
      BASE_PRICE_def LOW_CARB_EXTRA_def  DAYS_def MEAL_TYPES_def 
      emptyWeekQuantities_def init_v1_def trim_def 
      pad2_def padStart2_def String_number_def String_int_def String_nat.simps
      digit_char_def formatRand_def toFixed2_def Let_def)

lemma totals_notes_v3 [simp]:
  "totalMeals_v3 (s\<lparr> notes_v3 := x \<rparr>) = totalMeals_v3 s"
  "totalCost_v3 (s\<lparr> notes_v3 := x \<rparr>) = totalCost_v3 s"
  by (simp_all add: totalMeals_v3_def totalCost_v3_def weekATotalMeals_v3_def
      weekATotalCost_v3_def weekBTotalMeals_v3_def weekBTotalCost_v3_def)

lemma totalLine_notes [simp]: "totalLine (s\<lparr> notes_v3 := x \<rparr>) = totalLine s"
  by (simp add: totalLine_def)

lemma hasAnySelections_notes [simp]: "hasAnySelections (s\<lparr> notes_v3 := x \<rparr>) = hasAnySelections s"
  by (simp add: hasAnySelections_def)

lemma join_with_notes:
  assumes "ls = xs @ [t]" "t \<noteq> []" "n \<noteq> []"
  shows "join newline (popBlank (ls @ [[], ''Notes: '' @ n]))
       = join newline (popBlank ls) @ newline @ newline @ ''Notes: '' @ n"
proof -
  have a: "popBlank (ls @ [[], ''Notes: '' @ n]) = ls @ [[], ''Notes: '' @ n]"
    using popBlank_snoc [of "ls @ [[]]" "''Notes: '' @ n"] by simp
  have b: "popBlank ls = ls"
    using assms(1,2) by (simp add: popBlank_snoc)
  have "join newline (ls @ [[], ''Notes: '' @ n])
      = join newline ls @ newline @ join newline [[], ''Notes: '' @ n]"
    using assms(1) by (intro join_append) simp_all
  then show ?thesis unfolding a b by simp
qed

lemma join_head2:
  assumes "ls = a # b # [] # rest" "last ls \<noteq> []"
  shows "\<exists>r. join newline (popBlank ls) = a @ newline @ b @ newline @ r"
proof -
  have "popBlank ls = ls"
    using assms(2) by (simp add: popBlank_id)
  then show ?thesis using assms(1) by simp
qed

lemma DAYS_all: "day \<in> set DAYS"
  by (cases day) (simp_all add: DAYS_def)

lemma deps_of_inj: "deps_of m s = deps_of m' s' \<Longrightarrow> m = m' \<and> s = s'"
  by (cases s, cases s') (simp add: deps_of_def)

section \<open>The lines and texts of v3\<close>

subsection \<open>Steps that can raise\<close>

lemma bindE_Inl [simp]: "bindE (Inl e) f = Inl e"
  by (simp add: bindE_def)

lemma bindE_Inr [simp]: "bindE (Inr x) f = f x"
  by (simp add: bindE_def)

lemma bindE_eq_Inr: "bindE r f = Inr y \<longleftrightarrow> (\<exists>x. r = Inr x \<and> f x = Inr y)"
  by (cases r) simp_all

lemma foldE_invariant:
  assumes step: "\<And>x acc acc'. P acc \<Longrightarrow> f x acc = Inr acc' \<Longrightarrow> P acc'"
    and "P a" "foldE f xs a = Inr r"
  shows "P r"
  using assms(2,3)
proof (induction xs arbitrary: a)
  case Nil
  then show ?case by simp
next
  case (Cons x xs)
  then obtain a' where a': "f x a = Inr a'" "foldE f xs a' = Inr r"
    by (auto simp: bindE_eq_Inr)
  have "P a'" using Cons.prems(1) a'(1) by (rule step)
  then show ?case using a'(2) by (rule Cons.IH)
qed

lemma foldE_succeeds:
  assumes "\<And>x acc. x \<in> set xs \<Longrightarrow> \<exists>acc'. f x acc = Inr acc'"
  shows "\<exists>r. foldE f xs a = Inr r"
  using assms
proof (induction xs arbitrary: a)
  case Nil
  then show ?case by simp
next
  case (Cons x xs)
  obtain a' where a': "f x a = Inr a'" using Cons.prems [of x a] by auto
  have "\<exists>r. foldE f xs a' = Inr r"
    by (rule Cons.IH) (use Cons.prems in auto)
  then show ?case by (simp add: a')
qed

lemma ToString_printable:
  "printable v \<Longrightarrow> \<exists>t. ToString v = Inr t"
  "list_all printable xs \<Longrightarrow> \<exists>ts. ToString_elems xs = Inr ts"
proof (induction v and xs rule: ToString_ToString_elems.induct)
  case (9 x xs)
  then show ?case by (cases "x = JUndefined \<or> x = JNull") auto
qed auto

lemma weekHeading_not_notes: "weekHeading menus week = Inr h \<Longrightarrow> \<not> notesLine h"
  by (auto simp: weekHeading_def Let_def notesLine_def bindE_eq_Inr split: if_splits)

lemma weekHeading_succeeds:
  "printable (getProp (getMenuForWeek_v3 menus week) ''dateRange'') \<Longrightarrow>
     \<exists>h. weekHeading menus week = Inr h"
  using ToString_printable(1) [of "getProp (getMenuForWeek_v3 menus week) ''dateRange''"]
  by (auto simp: weekHeading_def Let_def)

lemma detailedDayLines_not_notes:
  assumes "detailedDayLines menu qty day = Inr ls"
  shows "\<forall>l\<in>set ls. \<not> notesLine l"
  using _ _ assms [unfolded detailedDayLines_def]
  by (rule foldE_invariant) (auto simp: Let_def notesLine_def bindE_eq_Inr split: if_splits)

lemma detailedDayLines_succeeds:
  assumes "list_all (\<lambda>meal. printable (parts_name (getMealParts menu day meal))) MEAL_TYPES"
  shows "\<exists>ls. detailedDayLines menu qty day = Inr ls"
  unfolding detailedDayLines_def
proof (rule foldE_succeeds)
  fix meal acc
  assume "meal \<in> set MEAL_TYPES"
  then have p: "printable (parts_name (getMealParts menu day meal))"
    using assms by (simp add: list_all_iff)
  let ?n = "if meal = LowCarb then JStr ''Low Carb''
            else if truthyV (parts_name (getMealParts menu day meal))
                 then parts_name (getMealParts menu day meal) else JStr ''Menu item''"
  have "printable ?n" using p by simp
  then obtain t where "ToString ?n = Inr t" using ToString_printable(1) by blast
  then show "\<exists>acc'. (let count = or0 (qty day meal)
        in if count \<le> 0 then Inr acc
           else
             let parts = getMealParts menu day meal;
                 nameOnly = (if meal = LowCarb then JStr ''Low Carb''
                             else if truthyV (parts_name parts) then parts_name parts
                             else JStr ''Menu item'')
             in bindE (ToString nameOnly)
                  (\<lambda>n. Inr (acc @ [''- '' @ MealType_str meal @ '': '' @ String_int count
                                        @ '' ('' @ n @ '')'']))) = Inr acc'"
    by (simp add: Let_def)
qed

lemma buildDetailedLinesForWeek_not_notes:
  assumes "buildDetailedLinesForWeek menus week qty = Inr ls"
  shows "\<forall>l\<in>set ls. \<not> notesLine l"
proof -
  obtain h ls1 where h: "weekHeading menus week = Inr h"
    and f: "foldE (\<lambda>day lines.
                  bindE (detailedDayLines (getMenuForWeek_v3 menus week) qty day) (\<lambda>dayLines.
                    Inr (if length dayLines > 0 then lines @ [DayName_str day] @ dayLines
                         else lines))) DAYS [h] = Inr ls1"
    and ls: "ls = ls1 @ [''Subtotal: '' @ String_int (sumWeekMeals_v3 qty) @ '' meals '' @ middot
                @ '' '' @ formatRand (sumWeekCost_v3 qty), []]"
    using assms by (auto simp: buildDetailedLinesForWeek_def Let_def bindE_eq_Inr)
  have "\<forall>l\<in>set ls1. \<not> notesLine l"
  proof (rule foldE_invariant [where P = "\<lambda>ls. \<forall>l\<in>set ls. \<not> notesLine l", OF _ _ f])
    show "\<forall>l\<in>set [h]. \<not> notesLine l"
      using weekHeading_not_notes [OF h] by simp
  next
    fix day acc acc'
    assume "\<forall>l\<in>set acc. \<not> notesLine l"
      and "bindE (detailedDayLines (getMenuForWeek_v3 menus week) qty day) (\<lambda>dayLines.
             Inr (if length dayLines > 0 then acc @ [DayName_str day] @ dayLines else acc))
           = Inr acc'"
    then show "\<forall>l\<in>set acc'. \<not> notesLine l"
      using not_notes_DayName [of day "[]"]
      using detailedDayLines_not_notes [of "getMenuForWeek_v3 menus week" qty day]
      by (auto simp: bindE_eq_Inr split: if_splits)
  qed
  then show ?thesis
    by (auto simp: ls notesLine_def)
qed

lemma buildDetailedLinesForWeek_succeeds:
  assumes "weekPrintable menus week"
  shows "\<exists>ls. buildDetailedLinesForWeek menus week qty = Inr ls"
proof -
  obtain h where h: "weekHeading menus week = Inr h"
    using assms weekHeading_succeeds [of menus week] by (auto simp: weekPrintable_def)
  have "\<exists>r. foldE (\<lambda>day lines.
                  bindE (detailedDayLines (getMenuForWeek_v3 menus week) qty day) (\<lambda>dayLines.
                    Inr (if length dayLines > 0 then lines @ [DayName_str day] @ dayLines
                         else lines))) DAYS [h] = Inr r"
  proof (rule foldE_succeeds)
    fix day acc
    assume "day \<in> set DAYS"
    then have "list_all (\<lambda>meal.
        printable (parts_name (getMealParts (getMenuForWeek_v3 menus week) day meal))) MEAL_TYPES"
      using assms by (simp add: weekPrintable_def list_all_iff)
    then obtain dl where "detailedDayLines (getMenuForWeek_v3 menus week) qty day = Inr dl"
      using detailedDayLines_succeeds by blast
    then show "\<exists>acc'. bindE (detailedDayLines (getMenuForWeek_v3 menus week) qty day)
        (\<lambda>dayLines. Inr (if length dayLines > 0 then acc @ [DayName_str day] @ dayLines
                          else acc)) = Inr acc'"
      by simp
  qed
  then show ?thesis
    using h by (auto simp: buildDetailedLinesForWeek_def Let_def)
qed

lemma buildWhatsAppWeekLines_not_notes:
  assumes "buildWhatsAppWeekLines menus week qty = Inr ls"
  shows "\<forall>l\<in>set ls. \<not> notesLine l"
proof -
  obtain h where h: "weekHeading menus week = Inr h"
    and ls: "ls = fold (\<lambda>day lines.
          let parts = whatsAppDayParts qty day
          in if length parts > 0 then lines @ [DAY_SHORT day @ '': '' @ join '' '' parts]
             else lines) DAYS [h]"
    using assms by (auto simp: buildWhatsAppWeekLines_def bindE_eq_Inr)
  show ?thesis
    unfolding ls
    by (rule fold_lines_invariant)
      (use weekHeading_not_notes [OF h] in \<open>auto simp: Let_def not_notes_DAY_SHORT\<close>)
qed

lemma buildWhatsAppWeekLines_succeeds:
  assumes "weekPrintable menus week"
  shows "\<exists>ls. buildWhatsAppWeekLines menus week qty = Inr ls"
  using assms weekHeading_succeeds [of menus week]
  by (auto simp: weekPrintable_def buildWhatsAppWeekLines_def)

subsection \<open>The notes in the lines and texts of v3\<close>

lemma whatsappLines_blank_notes:
  "trim (notes_v3 s) = [] \<Longrightarrow> whatsappLines menus s = whatsappLines menus (s\<lparr> notes_v3 := [] \<rparr>)"
  by (simp add: whatsappLines_def Let_def trim_Nil cong: if_cong)

lemma summaryLines_blank_notes:
  "trim (notes_v3 s) = [] \<Longrightarrow> summaryLines menus s = summaryLines menus (s\<lparr> notes_v3 := [] \<rparr>)"
  by (simp add: summaryLines_def Let_def trim_Nil cong: if_cong)

lemma whatsappLines_notes:
  "trim (notes_v3 s) \<noteq> [] \<Longrightarrow> whatsappLines menus s
     = bindE (whatsappLines menus (s\<lparr> notes_v3 := [] \<rparr>))
         (\<lambda>ls. Inr (ls @ [[], ''Notes: '' @ trim (notes_v3 s)]))"
  by (cases "buildWhatsAppWeekLines menus (weekA_v3 s) (qtyA_v3 s)";
      cases "buildWhatsAppWeekLines menus (weekB_v3 s) (qtyB_v3 s)")
    (simp_all add: whatsappLines_def Let_def trim_Nil)

lemma summaryLines_notes:
  "trim (notes_v3 s) \<noteq> [] \<Longrightarrow> summaryLines menus s
     = bindE (summaryLines menus (s\<lparr> notes_v3 := [] \<rparr>))
         (\<lambda>ls. Inr (ls @ [[], ''Notes: '' @ trim (notes_v3 s)]))"
  by (cases "buildDetailedLinesForWeek menus (weekA_v3 s) (qtyA_v3 s)";
      cases "buildDetailedLinesForWeek menus (weekB_v3 s) (qtyB_v3 s)")
    (simp_all add: summaryLines_def Let_def trim_Nil)

lemma whatsappLines_form:
  "whatsappLines menus (s\<lparr> notes_v3 := [] \<rparr>) = Inr ls \<Longrightarrow> \<exists>xs. ls = xs @ [totalLine s]"
  by (auto simp: whatsappLines_def Let_def trim_Nil bindE_eq_Inr split: if_splits)

lemma summaryLines_form:
  "summaryLines menus (s\<lparr> notes_v3 := [] \<rparr>) = Inr ls \<Longrightarrow> \<exists>xs. ls = xs @ [totalLine s]"
  by (auto simp: summaryLines_def Let_def trim_Nil bindE_eq_Inr split: if_splits)

lemma whatsappLines_no_notes:
  assumes "trim (notes_v3 s) = []" "whatsappLines menus s = Inr ls"
  shows "\<forall>l\<in>set ls. \<not> notesLine l"
  using assms
  by (auto simp: whatsappLines_def Let_def bindE_eq_Inr not_notes_nameLine not_notes_totalLine
      not_notes_literals split: if_splits dest!: buildWhatsAppWeekLines_not_notes)

lemma summaryLines_no_notes:
  assumes "trim (notes_v3 s) = []" "summaryLines menus s = Inr ls"
  shows "\<forall>l\<in>set ls. \<not> notesLine l"
  using assms
  by (auto simp: summaryLines_def Let_def bindE_eq_Inr not_notes_nameLine not_notes_totalLine
      not_notes_literals split: if_splits dest!: buildDetailedLinesForWeek_not_notes)

lemma whatsappLines_shape:
  "whatsappLines m s = Inr ls \<Longrightarrow>
     (\<exists>rest. ls = ''Meal Order'' # nameLine (name_v3 s) # [] # rest) \<and> last ls \<noteq> []"
  by (auto simp: whatsappLines_def Let_def bindE_eq_Inr totalLine_neq_Nil split: if_splits)

lemma summaryLines_shape:
  "summaryLines m s = Inr ls \<Longrightarrow>
     (\<exists>rest. ls = ''Meal Order'' # nameLine (name_v3 s) # [] # rest) \<and> last ls \<noteq> []"
  by (auto simp: summaryLines_def Let_def bindE_eq_Inr totalLine_neq_Nil split: if_splits)

lemma whatsappLines_succeeds:
  assumes "weekPrintable m (weekA_v3 s)" "weekPrintable m (weekB_v3 s)"
  shows "\<exists>ls. whatsappLines m s = Inr ls"
proof -
  obtain a where a: "buildWhatsAppWeekLines m (weekA_v3 s) (qtyA_v3 s) = Inr a"
    using buildWhatsAppWeekLines_succeeds [OF assms(1)] by blast
  obtain b where b: "buildWhatsAppWeekLines m (weekB_v3 s) (qtyB_v3 s) = Inr b"
    using buildWhatsAppWeekLines_succeeds [OF assms(2)] by blast
  show ?thesis by (simp add: whatsappLines_def Let_def a b)
qed

lemma summaryLines_succeeds:
  assumes "weekPrintable m (weekA_v3 s)" "weekPrintable m (weekB_v3 s)"
  shows "\<exists>ls. summaryLines m s = Inr ls"
proof -
  obtain a where a: "buildDetailedLinesForWeek m (weekA_v3 s) (qtyA_v3 s) = Inr a"
    using buildDetailedLinesForWeek_succeeds [OF assms(1)] by blast
  obtain b where b: "buildDetailedLinesForWeek m (weekB_v3 s) (qtyB_v3 s) = Inr b"
    using buildDetailedLinesForWeek_succeeds [OF assms(2)] by blast
  show ?thesis by (simp add: summaryLines_def Let_def a b)
qed

lemma whatsappText_blank_notes:
  "trim (notes_v3 s) = [] \<Longrightarrow> whatsappText menus s = whatsappText menus (s\<lparr> notes_v3 := [] \<rparr>)"
  using whatsappLines_blank_notes [of s menus] by (simp add: whatsappText_def)

lemma onScreenSummaryText_blank_notes:
  "trim (notes_v3 s) = [] \<Longrightarrow>
     onScreenSummaryText menus s = onScreenSummaryText menus (s\<lparr> notes_v3 := [] \<rparr>)"
  using summaryLines_blank_notes [of s menus] by (simp add: onScreenSummaryText_def)

lemma whatsappText_notes:
  assumes "trim (notes_v3 s) \<noteq> []" "hasAnySelections s"
  shows "whatsappText menus s = bindE (whatsappText menus (s\<lparr> notes_v3 := [] \<rparr>))
           (\<lambda>t. Inr (t @ newline @ newline @ ''Notes: '' @ trim (notes_v3 s)))"
proof (cases "whatsappLines menus (s\<lparr> notes_v3 := [] \<rparr>)")
  case (Inl e)
  then show ?thesis
    using assms by (simp add: whatsappText_def whatsappLines_notes)
next
  case (Inr ls)
  then obtain xs where "ls = xs @ [totalLine s]"
    using whatsappLines_form by blast
  then show ?thesis
    using assms Inr join_with_notes [of ls xs "totalLine s" "trim (notes_v3 s)"]
    by (simp add: whatsappText_def whatsappLines_notes totalLine_neq_Nil)
qed

lemma onScreenSummaryText_notes:
  assumes "trim (notes_v3 s) \<noteq> []" "hasAnySelections s"
  shows "onScreenSummaryText menus s = bindE (onScreenSummaryText menus (s\<lparr> notes_v3 := [] \<rparr>))
           (\<lambda>t. Inr (t @ newline @ newline @ ''Notes: '' @ trim (notes_v3 s)))"
proof (cases "summaryLines menus (s\<lparr> notes_v3 := [] \<rparr>)")
  case (Inl e)
  then show ?thesis
    using assms by (simp add: onScreenSummaryText_def summaryLines_notes)
next
  case (Inr ls)
  then obtain xs where "ls = xs @ [totalLine s]"
    using summaryLines_form by blast
  then show ?thesis
    using assms Inr join_with_notes [of ls xs "totalLine s" "trim (notes_v3 s)"]
    by (simp add: onScreenSummaryText_def summaryLines_notes totalLine_neq_Nil)
qed

lemma whatsappText_head:
  assumes "hasAnySelections s" "whatsappText m s = Inr t"
  shows "\<exists>r. t = ''Meal Order'' @ newline @ nameLine (name_v3 s) @ newline @ r"
proof -
  obtain ls where ls: "whatsappLines m s = Inr ls" "t = join newline (popBlank ls)"
    using assms by (auto simp: whatsappText_def bindE_eq_Inr)
  obtain rest where "ls = ''Meal Order'' # nameLine (name_v3 s) # [] # rest"
    using whatsappLines_shape [OF ls(1)] by blast
  from join_head2 [OF this] whatsappLines_shape [OF ls(1)] show ?thesis
    using ls(2) by auto
qed

lemma onScreenSummaryText_head:
  assumes "hasAnySelections s" "onScreenSummaryText m s = Inr t"
  shows "\<exists>r. t = ''Meal Order'' @ newline @ nameLine (name_v3 s) @ newline @ r"
proof -
  obtain ls where ls: "summaryLines m s = Inr ls" "t = join newline (popBlank ls)"
    using assms by (auto simp: onScreenSummaryText_def bindE_eq_Inr)
  obtain rest where "ls = ''Meal Order'' # nameLine (name_v3 s) # [] # rest"
    using summaryLines_shape [OF ls(1)] by blast
  from join_head2 [OF this] summaryLines_shape [OF ls(1)] show ?thesis
    using ls(2) by auto
qed

lemma texts_succeed:
  assumes "weekPrintable m (weekA_v3 s)" "weekPrintable m (weekB_v3 s)"
  shows "(\<exists>t. whatsappText m s = Inr t) \<and> (\<exists>t. onScreenSummaryText m s = Inr t)"
  using whatsappLines_succeeds [OF assms] summaryLines_succeeds [OF assms]
  by (auto simp: whatsappText_def onScreenSummaryText_def)

subsection \<open>The memo cell\<close>

lemma useMemo_coherent:
  assumes "coherent f cell"
  shows "fst (useMemo cell (deps_of m s) (f m s)) = f m s
       \<and> coherent f (snd (useMemo cell (deps_of m s) (f m s)))"
  using assms
  by (cases "f m s")
    (auto simp: useMemo_def coherent_def Let_def split: option.splits dest: deps_of_inj)

lemma renders_coherent:
  "coherent f cell \<Longrightarrow> renders f cell snaps = map (\<lambda>(m, s). f m s) snaps"
proof (induction snaps arbitrary: cell)
  case Nil
  show ?case by simp
next
  case (Cons p snaps)
  obtain m s where p: "p = (m, s)" by (cases p)
  from useMemo_coherent [OF Cons.prems, of m s]
  show ?case
    by (simp add: p split_beta Cons.IH)
qed

lemma renders_None: "renders f None snaps = map (\<lambda>(m, s). f m s) snaps"
  by (rule renders_coherent) (simp add: coherent_def)

subsection \<open>Missing menu data\<close>

lemma weekHeading_no_menu:
  "getMenuForWeek_v3 m week = JNull \<Longrightarrow> weekHeading m week = Inr (''Week '' @ pad2 week)"
  by (simp add: weekHeading_def getProp_def truthyV_def)

lemma getMealParts_no_menu:
  "meal \<noteq> LowCarb \<Longrightarrow> parts_name (getMealParts JNull day meal) = JStr ''Menu item coming soon.''"
  by (simp add: getMealParts_def getProp_def truthyV_def)

lemma foldE_mono:
  assumes "\<And>x acc acc'. f x acc = Inr acc' \<Longrightarrow> set acc \<subseteq> set acc'"
    "foldE f xs a = Inr r"
  shows "set a \<subseteq> set r"
  using assms(2)
proof (induction xs arbitrary: a)
  case Nil
  then show ?case by simp
next
  case (Cons x xs)
  then obtain a' where a': "f x a = Inr a'" "foldE f xs a' = Inr r"
    by (auto simp: bindE_eq_Inr)
  have "set a \<subseteq> set a'" using a'(1) by (rule assms(1))
  also have "\<dots> \<subseteq> set r" using a'(2) by (rule Cons.IH)
  finally show ?case .
qed

lemma detailedDayLines_placeholder:
  assumes "meal \<noteq> LowCarb" "0 < qty day meal" "detailedDayLines JNull qty day = Inr dl"
  shows "''- '' @ MealType_str meal @ '': '' @ String_int (qty day meal)
           @ '' (Menu item coming soon.)'' \<in> set dl"
proof -
  let ?f = "\<lambda>meal dayLines.
        let count = or0 (qty day meal)
        in if count \<le> 0 then Inr dayLines
           else
             let parts = getMealParts JNull day meal;
                 nameOnly = (if meal = LowCarb then JStr ''Low Carb''
                             else if truthyV (parts_name parts) then parts_name parts
                             else JStr ''Menu item'')
             in bindE (ToString nameOnly)
                  (\<lambda>n. Inr (dayLines @ [''- '' @ MealType_str meal @ '': '' @ String_int count
                                        @ '' ('' @ n @ '')'']))"
  let ?l = "''- '' @ MealType_str meal @ '': '' @ String_int (qty day meal)
           @ '' (Menu item coming soon.)''"
  have step: "set acc \<subseteq> set acc'" if "?f x acc = Inr acc'" for x acc acc'
    using that by (auto simp: Let_def bindE_eq_Inr split: if_splits)
  have here: "?l \<in> set acc'" if "?f meal acc = Inr acc'" for acc acc'
    using that assms(1,2)
    by (auto simp: Let_def bindE_eq_Inr or0_def getMealParts_no_menu truthyV_def split: if_splits)
  have f: "foldE ?f MEAL_TYPES [] = Inr dl"
    using assms(3) by (simp add: detailedDayLines_def)
  have gen: "meal \<in> set ms \<Longrightarrow> foldE ?f ms a = Inr r \<Longrightarrow> ?l \<in> set r" for ms a r
  proof (induction ms arbitrary: a)
    case Nil
    then show ?case by simp
  next
    case (Cons x xs)
    from Cons.prems(2) obtain a' where a': "?f x a = Inr a'" "foldE ?f xs a' = Inr r"
      by (auto simp: bindE_eq_Inr)
    show ?case
    proof (cases "x = meal")
      case True
      then have "?l \<in> set a'" using here a'(1) by blast
      moreover have "set a' \<subseteq> set r"
        using step a'(2) by (rule foldE_mono)
      ultimately show ?thesis by blast
    next
      case False
      then have "meal \<in> set xs" using Cons.prems(1) by simp
      then show ?thesis using a'(2) by (rule Cons.IH)
    qed
  qed
  have "meal \<in> set MEAL_TYPES" by (cases meal) (simp_all add: MEAL_TYPES_def)
  then show ?thesis using f by (rule gen)
qed

lemma foldE_member:
  assumes step: "\<And>x acc acc'. f x acc = Inr acc' \<Longrightarrow> set acc \<subseteq> set acc'"
    and here: "\<And>acc acc'. f y acc = Inr acc' \<Longrightarrow> l \<in> set acc'"
    and "y \<in> set xs" "foldE f xs a = Inr r"
  shows "l \<in> set r"
  using assms(3,4)
proof (induction xs arbitrary: a)
  case Nil
  then show ?case by simp
next
  case (Cons x xs)
  from Cons.prems(2) obtain a' where a': "f x a = Inr a'" "foldE f xs a' = Inr r"
    by (auto simp: bindE_eq_Inr)
  show ?case
  proof (cases "x = y")
    case True
    then have "l \<in> set a'" using here a'(1) by blast
    moreover have "set a' \<subseteq> set r"
      using step a'(2) by (rule foldE_mono)
    ultimately show ?thesis by blast
  next
    case False
    then have "y \<in> set xs" using Cons.prems(1) by simp
    then show ?thesis using a'(2) by (rule Cons.IH)
  qed
qed

lemma buildDetailedLinesForWeek_placeholder:
  assumes "meal \<noteq> LowCarb" "0 < qty day meal" "getMenuForWeek_v3 menus week = JNull"
    "buildDetailedLinesForWeek menus week qty = Inr ls"
  shows "''- '' @ MealType_str meal @ '': '' @ String_int (qty day meal)
           @ '' (Menu item coming soon.)'' \<in> set ls"
proof -
  let ?l = "''- '' @ MealType_str meal @ '': '' @ String_int (qty day meal)
           @ '' (Menu item coming soon.)''"
  let ?f = "\<lambda>day lines.
                  bindE (detailedDayLines JNull qty day) (\<lambda>dayLines.
                    Inr (if length dayLines > 0 then lines @ [DayName_str day] @ dayLines
                         else lines))"
  have "\<exists>h ls1 rest. foldE ?f DAYS [h] = Inr ls1 \<and> ls = ls1 @ rest"
    using assms(3,4) by (auto simp: buildDetailedLinesForWeek_def Let_def bindE_eq_Inr)
  then obtain h ls1 where f: "foldE ?f DAYS [h] = Inr ls1" and ls: "set ls1 \<subseteq> set ls"
    by auto
  have step: "set acc \<subseteq> set acc'" if "?f x acc = Inr acc'" for x acc acc'
    using that by (cases "detailedDayLines JNull qty x") (auto split: if_splits)
  have here: "?l \<in> set acc'" if "?f day acc = Inr acc'" for acc acc'
  proof (cases "detailedDayLines JNull qty day")
    case (Inl e)
    then show ?thesis using that by simp
  next
    case (Inr dl)
    have "?l \<in> set dl"
      using assms(1,2) Inr by (rule detailedDayLines_placeholder)
    then show ?thesis using that Inr by (auto split: if_splits)
  qed
  have "?l \<in> set ls1"
    using step here DAYS_all f by (rule foldE_member)
  then show ?thesis using ls by blast
qed

lemma summaryLines_blockA:
  assumes "summaryLines menus s = Inr ls"
  shows "\<exists>a. buildDetailedLinesForWeek menus (weekA_v3 s) (qtyA_v3 s) = Inr a
      \<and> set a \<subseteq> set ls"
proof (cases "buildDetailedLinesForWeek menus (weekA_v3 s) (qtyA_v3 s)")
  case (Inl e)
  then show ?thesis using assms by (simp add: summaryLines_def)
next
  case a: (Inr a)
  show ?thesis
  proof (cases "useWeekB_v3 s \<and> \<not> strict_eq (weekB_v3 s) (weekA_v3 s)")
    case True
    show ?thesis
    proof (cases "buildDetailedLinesForWeek menus (weekB_v3 s) (qtyB_v3 s)")
      case (Inl e)
      then show ?thesis using assms a True by (simp add: summaryLines_def)
    next
      case (Inr b)
      then show ?thesis using assms a True
        by (cases "trim (notes_v3 s) = []") (auto simp: summaryLines_def)
    qed
  next
    case False
    then show ?thesis using assms a
      by (cases "trim (notes_v3 s) = []") (auto simp: summaryLines_def)
  qed
qed

lemma summaryLines_placeholder:
  assumes "meal \<noteq> LowCarb" "0 < qtyA_v3 s day meal" "getMenuForWeek_v3 menus (weekA_v3 s) = JNull"
    "summaryLines menus s = Inr ls"
  shows "''- '' @ MealType_str meal @ '': '' @ String_int (qtyA_v3 s day meal)
           @ '' (Menu item coming soon.)'' \<in> set ls"
proof -
  obtain a where a: "buildDetailedLinesForWeek menus (weekA_v3 s) (qtyA_v3 s) = Inr a"
    and sub: "set a \<subseteq> set ls"
    using summaryLines_blockA [OF assms(4)] by blast
  show ?thesis
    using buildDetailedLinesForWeek_placeholder [OF assms(1,2,3) a] sub by blast
qed

subsection \<open>The two texts of the scenario\<close>

lemmas eval_text = hasAnySelections_def totalMeals_v3_def
      totalCost_v3_def weekATotalMeals_v3_def weekATotalCost_v3_def weekBTotalMeals_v3_def
      weekBTotalCost_v3_def sumWeekMeals_v3_def sumWeekCost_v3_def or0_def priceFor_def
      PRICE_MEAT_def PRICE_VEG_def PRICE_LOW_CARB_def DAYS_def MEAL_TYPES_def scenario_grid_def
      emptyWeekQuantities_def init_v3_def nameLine_def trim_def totalLine_def
      weekHeading_def getMenuForWeek_v3_def getProp_def truthyV_def
      pad2_def padStart2_def String_number_def String_int_def String_nat.simps
      digit_char_def formatRand_def toFixed2_def popBlank.simps Let_def

lemma whatsappText_scenario: "whatsappText [] (init_v3\<lparr> qtyA_v3 := scenario_grid \<rparr>)
   = Inr (join newline [''Meal Order'', ''Name: [name]'', [], ''Week 01'', ''Mon: x2 Meat'',
       ''Wed: x1 Veg'', [], ''TOTAL: 3 meals '' @ middot @ '' R270.00''])"
  by (simp add: whatsappText_def whatsappLines_def eval_text
      buildWhatsAppWeekLines_def whatsAppDayParts_def DAY_SHORT_def)

lemma onScreenSummaryText_scenario: "onScreenSummaryText [] (init_v3\<lparr> qtyA_v3 := scenario_grid \<rparr>)
   = Inr (join newline [''Meal Order'', ''Name: [name]'', [], ''Week 01'', ''Monday'',
       ''- Meat: 2 (Menu item coming soon.)'', ''Wednesday'', ''- Veg: 1 (Menu item coming soon.)'',
       ''Subtotal: 3 meals '' @ middot @ '' R270.00'', [],
       ''TOTAL: 3 meals '' @ middot @ '' R270.00''])"
  by (simp add: onScreenSummaryText_def summaryLines_def eval_text
      buildDetailedLinesForWeek_def detailedDayLines_def getMealParts_def
      DayName_str_def MealType_str_def)

lemma bad_dateRange: 
  "whatsappText menus_bad_dateRange (init_v3\<lparr> qtyA_v3 := scenario_grid \<rparr>) = Inl TypeError
   \<and> onScreenSummaryText menus_bad_dateRange (init_v3\<lparr> qtyA_v3 := scenario_grid \<rparr>) = Inl TypeError"
  by (simp add: whatsappText_def whatsappLines_def onScreenSummaryText_def summaryLines_def
      eval_text buildWhatsAppWeekLines_def buildDetailedLinesForWeek_def menus_bad_dateRange_def)

lemma week1: "weekPrintable menus_week1 (Num 1) \<and> weekPrintable menus_week1 (Num 2)"
  by (simp add: weekPrintable_def menus_week1_def getMealParts_def eval_text DayName_str_def)

lemma week1_text: "onScreenSummaryText menus_week1 (init_v3\<lparr> qtyA_v3 := scenario_grid \<rparr>)
   = Inr (join newline [''Meal Order'', ''Name: [name]'', [], ''Week 01 (5-9 Jan)'', ''Monday'',
       ''- Meat: 2 (Beef stew)'', ''Wednesday'', ''- Veg: 1 (Menu item coming soon.)'',
       ''Subtotal: 3 meals '' @ middot @ '' R270.00'', [],
       ''TOTAL: 3 meals '' @ middot @ '' R270.00''])"
  by (simp add: onScreenSummaryText_def summaryLines_def eval_text menus_week1_def
      buildDetailedLinesForWeek_def detailedDayLines_def getMealParts_def
      DayName_str_def MealType_str_def)

subsection \<open>The empty session (C6)\<close>

lemma empty_totals_v3:
  assumes "qtyA_v3 u = emptyWeekQuantities" "qtyB_v3 u = emptyWeekQuantities"
  shows "totalMeals_v3 u = 0 \<and> totalCost_v3 u = 0"
  using assms
  by (simp add: totalMeals_v3_def totalCost_v3_def weekATotalMeals_v3_def
      weekATotalCost_v3_def weekBTotalMeals_v3_def weekBTotalCost_v3_def sumWeekMeals_v3_sum
      sumWeekCost_v3_sum emptyWeekQuantities_def)

lemma empty_totals_v1: "totalMeals_v1 init_v1 = 0 \<and> totalCost_v1 init_v1 = 0"
  by (simp add: totalMeals_v1_def totalCost_v1_def weekATotalMeals_v1_def
      weekATotalCost_v1_def weekBTotalMeals_v1_def weekBTotalCost_v1_def sumWeekMeals_v1_sum
      sumWeekCost_v1_sum emptyWeekQuantities_def init_v1_def)

text \<open>
  C6, as the code has it. The claim reads: for the empty session the totals are 0 and the
  outbound message has no day lines and a total line reading "0 meals", middle dot,
  "R0.00". \<^verbatim>\<open>whatsappText\<close> returns the empty string when no meal is selected, so the
  message of the empty session has no total line either: the empty string does not
  contain it.
\<close>

theorem C6_total_line_counterexample:
  "totalMeals_v3 init_v3 = 0 \<and> whatsappText [] init_v3 = Inr []
   \<and> \<not> sublist (''0 meals '' @ middot @ '' R0.00'') (projr (whatsappText [] init_v3))"
proof -
  have t: "totalMeals_v3 init_v3 = 0"
    using empty_totals_v3 [of init_v3] by (simp add: init_v3_def)
  then have "whatsappText [] init_v3 = Inr []"
    by (simp add: whatsappText_def hasAnySelections_def)
  then show ?thesis using t by simp
qed

text \<open>
  C6, amended: for a session whose two grids are all zero, \<^verbatim>\<open>totalMeals\<close> is 0 and
  \<^verbatim>\<open>totalCost\<close> is 0. In v3 both texts of such a session, \<^verbatim>\<open>whatsappText\<close> and
  \<^verbatim>\<open>onScreenSummaryText\<close>, are returned, and are the empty string: no day lines and no
  total line. In v1
  \<^verbatim>\<open>buildOrderText\<close> of the initial session has no day lines and ends with the two total
  lines "Total meals: 0" and "Total cost: R0.00".
\<close>

theorem C6_empty_session:
  "(qtyA_v3 u = emptyWeekQuantities \<and> qtyB_v3 u = emptyWeekQuantities \<longrightarrow>
      totalMeals_v3 u = 0 \<and> totalCost_v3 u = 0
    \<and> whatsappText menus u = Inr [] \<and> onScreenSummaryText menus u = Inr [])
   \<and> totalMeals_v1 init_v1 = 0 \<and> totalCost_v1 init_v1 = 0
   \<and> buildOrderText_v1 init_v1
       = join newline [''Meal Order'', ''Name: [name]'', [], ''Week 01:'',
           ''Total meals (Week 01): 0'', ''Cost (Week 01): R0.00'', [],
           ''Total meals: 0'', ''Total cost: R0.00'']"
proof -
  have "qtyA_v3 u = emptyWeekQuantities \<and> qtyB_v3 u = emptyWeekQuantities \<longrightarrow>
      totalMeals_v3 u = 0 \<and> totalCost_v3 u = 0
    \<and> whatsappText menus u = Inr [] \<and> onScreenSummaryText menus u = Inr []"
    using empty_totals_v3 [of u]
    by (simp add: whatsappText_def onScreenSummaryText_def hasAnySelections_def)
  then show ?thesis
    using empty_totals_v1 buildOrderText_v1_init by blast
qed

theorem C6_empty_session_witness:
  "qtyA_v3 (init_v3\<lparr> name_v3 := ''Ann'', notes_v3 := ''no onions'' \<rparr>) = emptyWeekQuantities
   \<and> qtyB_v3 (init_v3\<lparr> name_v3 := ''Ann'', notes_v3 := ''no onions'' \<rparr>) = emptyWeekQuantities
   \<and> totalMeals_v3 (init_v3\<lparr> name_v3 := ''Ann'', notes_v3 := ''no onions'' \<rparr>) = 0
   \<and> totalCost_v3 (init_v3\<lparr> name_v3 := ''Ann'', notes_v3 := ''no onions'' \<rparr>) = 0
   \<and> whatsappText menus_3_4 (init_v3\<lparr> name_v3 := ''Ann'', notes_v3 := ''no onions'' \<rparr>) = Inr []
   \<and> onScreenSummaryText menus_3_4 (init_v3\<lparr> name_v3 := ''Ann'', notes_v3 := ''no onions'' \<rparr>)
       = Inr []"
  using C6_empty_session [of "init_v3\<lparr> name_v3 := ''Ann'', notes_v3 := ''no onions'' \<rparr>" menus_3_4]
  by (simp add: init_v3_def)

subsection \<open>The notes line (C8)\<close>

text \<open>
  C8, as the code has it. The claim reads: in the detailed summary and in the outbound
  message the notes line shows the trimmed notes, and it is left out only when the notes
  are empty after trimming. Both texts of v3 return the empty string before they reach
  the notes when no meal is selected: with the notes "no onions" and empty grids neither
  text has a notes line.
\<close>

theorem C8_notes_without_selection_counterexample:
  "trim ''no onions'' = ''no onions''
   \<and> whatsappText [] (init_v3\<lparr> notes_v3 := ''no onions'' \<rparr>) = Inr []
   \<and> onScreenSummaryText [] (init_v3\<lparr> notes_v3 := ''no onions'' \<rparr>) = Inr []"
proof -
  have "\<not> hasAnySelections (init_v3\<lparr> notes_v3 := ''no onions'' \<rparr>)"
    using empty_totals_v3 [of "init_v3\<lparr> notes_v3 := ''no onions'' \<rparr>"]
    by (simp add: hasAnySelections_def init_v3_def)
  then show ?thesis
    by (simp add: whatsappText_def onScreenSummaryText_def trim_def isWhiteSpace_def)
qed

text \<open>
  C8, amended: when the notes are empty after trimming (notes of white space only are),
  no line of the detailed summary, of the outbound message or of \<^verbatim>\<open>buildOrderText\<close> of v1
  is a notes line, and each text is the one of the session with empty notes. When the
  notes are not empty after trimming, \<^verbatim>\<open>buildOrderText\<close> of v1 ends with a blank line and
  the line "Notes: " followed by the notes trimmed of surrounding white space; the
  detailed summary and the outbound message of v3 end so when a meal is selected (each
  is the text of the session with empty notes followed by that ending, and raises when
  that text does), and are the empty string, without a notes line, when no meal is
  selected.
\<close>

theorem C8_notes_line:
  "(trim (notes_v1 s) = [] \<longrightarrow>
      (\<forall>l\<in>set (orderLines_v1 s). \<not> notesLine l)
    \<and> buildOrderText_v1 s = buildOrderText_v1 (s\<lparr> notes_v1 := [] \<rparr>))
   \<and> (trim (notes_v1 s) \<noteq> [] \<longrightarrow>
      orderLines_v1 s
        = orderLines_v1 (s\<lparr> notes_v1 := [] \<rparr>) @ [[], ''Notes: '' @ trim (notes_v1 s)]
    \<and> buildOrderText_v1 s = buildOrderText_v1 (s\<lparr> notes_v1 := [] \<rparr>)
        @ newline @ newline @ ''Notes: '' @ trim (notes_v1 s))
   \<and> (trim (notes_v3 u) = [] \<longrightarrow>
      (\<forall>ls. summaryLines menus u = Inr ls \<longrightarrow> (\<forall>l\<in>set (popBlank ls). \<not> notesLine l))
    \<and> (\<forall>ls. whatsappLines menus u = Inr ls \<longrightarrow> (\<forall>l\<in>set (popBlank ls). \<not> notesLine l))
    \<and> onScreenSummaryText menus u = onScreenSummaryText menus (u\<lparr> notes_v3 := [] \<rparr>)
    \<and> whatsappText menus u = whatsappText menus (u\<lparr> notes_v3 := [] \<rparr>))
   \<and> (trim (notes_v3 u) \<noteq> [] \<and> hasAnySelections u \<longrightarrow>
      onScreenSummaryText menus u
        = bindE (onScreenSummaryText menus (u\<lparr> notes_v3 := [] \<rparr>))
            (\<lambda>t. Inr (t @ newline @ newline @ ''Notes: '' @ trim (notes_v3 u)))
    \<and> whatsappText menus u
        = bindE (whatsappText menus (u\<lparr> notes_v3 := [] \<rparr>))
            (\<lambda>t. Inr (t @ newline @ newline @ ''Notes: '' @ trim (notes_v3 u))))
   \<and> (\<not> hasAnySelections u \<longrightarrow>
      onScreenSummaryText menus u = Inr [] \<and> whatsappText menus u = Inr [])
   \<and> (trim n = [] \<longleftrightarrow> (\<forall>c\<in>set n. isWhiteSpace c))
   \<and> (\<exists>a b. n = a @ trim n @ b \<and> (\<forall>c\<in>set a. isWhiteSpace c) \<and> (\<forall>c\<in>set b. isWhiteSpace c))
   \<and> (trim n \<noteq> [] \<longrightarrow> \<not> isWhiteSpace (hd (trim n)) \<and> \<not> isWhiteSpace (last (trim n)))"
proof -
  have v1a: "trim (notes_v1 s) = [] \<longrightarrow>
      (\<forall>l\<in>set (orderLines_v1 s). \<not> notesLine l)
    \<and> buildOrderText_v1 s = buildOrderText_v1 (s\<lparr> notes_v1 := [] \<rparr>)"
    using orderLines_v1_no_notes [of s] orderLines_v1_blank_notes [of s]
    by (simp add: buildOrderText_v1_def)
  have v1b: "trim (notes_v1 s) \<noteq> [] \<longrightarrow>
      orderLines_v1 s
        = orderLines_v1 (s\<lparr> notes_v1 := [] \<rparr>) @ [[], ''Notes: '' @ trim (notes_v1 s)]
    \<and> buildOrderText_v1 s = buildOrderText_v1 (s\<lparr> notes_v1 := [] \<rparr>)
        @ newline @ newline @ ''Notes: '' @ trim (notes_v1 s)"
    using orderLines_v1_notes [of s] buildOrderText_v1_notes [of s] by blast
  have v3a: "trim (notes_v3 u) = [] \<longrightarrow>
      (\<forall>ls. summaryLines menus u = Inr ls \<longrightarrow> (\<forall>l\<in>set (popBlank ls). \<not> notesLine l))
    \<and> (\<forall>ls. whatsappLines menus u = Inr ls \<longrightarrow> (\<forall>l\<in>set (popBlank ls). \<not> notesLine l))
    \<and> onScreenSummaryText menus u = onScreenSummaryText menus (u\<lparr> notes_v3 := [] \<rparr>)
    \<and> whatsappText menus u = whatsappText menus (u\<lparr> notes_v3 := [] \<rparr>)"
  proof (intro impI conjI allI)
    fix ls
    assume t: "trim (notes_v3 u) = []" and ls: "summaryLines menus u = Inr ls"
    show "\<forall>l\<in>set (popBlank ls). \<not> notesLine l"
      using summaryLines_no_notes [OF t ls] set_popBlank [of ls] by blast
  next
    fix ls
    assume t: "trim (notes_v3 u) = []" and ls: "whatsappLines menus u = Inr ls"
    show "\<forall>l\<in>set (popBlank ls). \<not> notesLine l"
      using whatsappLines_no_notes [OF t ls] set_popBlank [of ls] by blast
  next
    assume "trim (notes_v3 u) = []"
    then show "onScreenSummaryText menus u = onScreenSummaryText menus (u\<lparr> notes_v3 := [] \<rparr>)"
      by (rule onScreenSummaryText_blank_notes)
  next
    assume "trim (notes_v3 u) = []"
    then show "whatsappText menus u = whatsappText menus (u\<lparr> notes_v3 := [] \<rparr>)"
      by (rule whatsappText_blank_notes)
  qed
  have v3b: "trim (notes_v3 u) \<noteq> [] \<and> hasAnySelections u \<longrightarrow>
      onScreenSummaryText menus u
        = bindE (onScreenSummaryText menus (u\<lparr> notes_v3 := [] \<rparr>))
            (\<lambda>t. Inr (t @ newline @ newline @ ''Notes: '' @ trim (notes_v3 u)))
    \<and> whatsappText menus u
        = bindE (whatsappText menus (u\<lparr> notes_v3 := [] \<rparr>))
            (\<lambda>t. Inr (t @ newline @ newline @ ''Notes: '' @ trim (notes_v3 u)))"
    using onScreenSummaryText_notes [of u menus] whatsappText_notes [of u menus] by blast
  have v3c: "\<not> hasAnySelections u \<longrightarrow>
      onScreenSummaryText menus u = Inr [] \<and> whatsappText menus u = Inr []"
    by (simp add: onScreenSummaryText_def whatsappText_def)
  show ?thesis
    using v1a v1b v3a v3b v3c trim_Nil_iff [of n] trim_surrounding [of n] trim_ends [of n]
    by blast
qed

theorem C8_notes_line_witness:
  "trim [CHR 0x09, CHR '' '', CHR 0x0A] = []
   \<and> buildOrderText_v1 (init_v1\<lparr> notes_v1 := [CHR 0x09, CHR '' '', CHR 0x0A] \<rparr>)
       = buildOrderText_v1 (init_v1\<lparr> notes_v1 := [] \<rparr>)
   \<and> orderLines_v1 (init_v1\<lparr> notes_v1 := ''  no onions '' \<rparr>)
       = orderLines_v1 (init_v1\<lparr> notes_v1 := [] \<rparr>) @ [[], ''Notes: no onions'']
   \<and> whatsappText [] (init_v3\<lparr> qtyA_v3 := scenario_grid,
          notes_v3 := [CHR 0x09, CHR '' '', CHR 0x0A] \<rparr>)
       = Inr (join newline [''Meal Order'', ''Name: [name]'', [], ''Week 01'', ''Mon: x2 Meat'',
           ''Wed: x1 Veg'', [], ''TOTAL: 3 meals '' @ middot @ '' R270.00''])
   \<and> hasAnySelections (init_v3\<lparr> qtyA_v3 := scenario_grid, notes_v3 := ''  no onions '' \<rparr>)
   \<and> whatsappText [] (init_v3\<lparr> qtyA_v3 := scenario_grid, notes_v3 := ''  no onions '' \<rparr>)
       = Inr (join newline [''Meal Order'', ''Name: [name]'', [], ''Week 01'', ''Mon: x2 Meat'',
           ''Wed: x1 Veg'', [], ''TOTAL: 3 meals '' @ middot @ '' R270.00'', [],
           ''Notes: no onions''])
   \<and> onScreenSummaryText [] (init_v3\<lparr> qtyA_v3 := scenario_grid, notes_v3 := ''  no onions '' \<rparr>)
       = Inr (join newline [''Meal Order'', ''Name: [name]'', [], ''Week 01'', ''Monday'',
           ''- Meat: 2 (Menu item coming soon.)'', ''Wednesday'',
           ''- Veg: 1 (Menu item coming soon.)'',
           ''Subtotal: 3 meals '' @ middot @ '' R270.00'', [],
           ''TOTAL: 3 meals '' @ middot @ '' R270.00'', [], ''Notes: no onions''])
   \<and> \<not> hasAnySelections (init_v3\<lparr> notes_v3 := ''  no onions '' \<rparr>)
   \<and> whatsappText [] (init_v3\<lparr> notes_v3 := ''  no onions '' \<rparr>) = Inr []
   \<and> onScreenSummaryText [] (init_v3\<lparr> notes_v3 := ''  no onions '' \<rparr>) = Inr []"
proof -
  have t1: "trim [CHR 0x09, CHR '' '', CHR 0x0A] = []"
    by (simp add: trim_def isWhiteSpace_def)
  have t2: "trim ''  no onions '' = ''no onions''"
    by (simp add: trim_def isWhiteSpace_def)
  have h: "hasAnySelections (init_v3\<lparr> qtyA_v3 := scenario_grid, notes_v3 := ''  no onions '' \<rparr>)"
    by (simp add: hasAnySelections_def totalMeals_v3_def weekATotalMeals_v3_def
        weekBTotalMeals_v3_def sumWeekMeals_v3_sum sum_DayName sum_MealType scenario_grid_def
        emptyWeekQuantities_def init_v3_def)
  have z: "\<not> hasAnySelections (init_v3\<lparr> notes_v3 := ''  no onions '' \<rparr>)"
    using empty_totals_v3 [of "init_v3\<lparr> notes_v3 := ''  no onions '' \<rparr>"]
    by (simp add: hasAnySelections_def init_v3_def)
  have e: "init_v3\<lparr> qtyA_v3 := scenario_grid, notes_v3 := [] \<rparr>
      = init_v3\<lparr> qtyA_v3 := scenario_grid \<rparr>"
    by (simp add: init_v3_def)
  show ?thesis
    using C8_notes_line [of "init_v1\<lparr> notes_v1 := [CHR 0x09, CHR '' '', CHR 0x0A] \<rparr>"
        "init_v3\<lparr> qtyA_v3 := scenario_grid, notes_v3 := [CHR 0x09, CHR '' '', CHR 0x0A] \<rparr>"
        "[]" "[]"]
      C8_notes_line [of "init_v1\<lparr> notes_v1 := ''  no onions '' \<rparr>"
        "init_v3\<lparr> qtyA_v3 := scenario_grid, notes_v3 := ''  no onions '' \<rparr>" "[]" "[]"]
      C8_notes_line [of "init_v1" "init_v3\<lparr> notes_v3 := ''  no onions '' \<rparr>" "[]" "[]"]
      t1 t2 h z
    by (simp add: e whatsappText_scenario onScreenSummaryText_scenario)
qed
subsection \<open>The two texts on a menus.json of any content (C9)\<close>

lemma weekPrintable_no_menu:
  "getMenuForWeek_v3 m week = JNull \<Longrightarrow> weekPrintable m week"
  by (simp add: weekPrintable_def getProp_def getMealParts_def truthyV_def DAYS_def
      MEAL_TYPES_def)

lemma hasAnySelections_scenario: "hasAnySelections (init_v3\<lparr> qtyA_v3 := scenario_grid \<rparr>)"
  by (simp add: hasAnySelections_def totalMeals_v3_def weekATotalMeals_v3_def
      weekBTotalMeals_v3_def sumWeekMeals_v3_sum sum_DayName sum_MealType scenario_grid_def
      emptyWeekQuantities_def init_v3_def)

lemma summaryLines_scenario: "summaryLines [] (init_v3\<lparr> qtyA_v3 := scenario_grid \<rparr>)
   = Inr [''Meal Order'', ''Name: [name]'', [], ''Week 01'', ''Monday'',
       ''- Meat: 2 (Menu item coming soon.)'', ''Wednesday'', ''- Veg: 1 (Menu item coming soon.)'',
       ''Subtotal: 3 meals '' @ middot @ '' R270.00'', [],
       ''TOTAL: 3 meals '' @ middot @ '' R270.00'']"
  by (simp add: summaryLines_def eval_text buildDetailedLinesForWeek_def detailedDayLines_def
      getMealParts_def DayName_str_def MealType_str_def)

text \<open>
  C9, as the code has it. The claim reads: for every snapshot and catalog the two
  formatters give the same string when called twice, and neither ever raises, missing
  data becoming placeholder text. The catalog is what \<^verbatim>\<open>JSON.parse\<close> returned for
  menus.json, stored with the cast \<^verbatim>\<open>data as MenusByWeek\<close> and checked nowhere, and both
  formatters put the date range of the week into a template literal. For a menus.json
  whose week 1 has the date range \<^verbatim>\<open>{"toString": 1}\<close> and a session with a meal selected
  the conversion to a string raises \<^verbatim>\<open>TypeError\<close> in both formatters.
\<close>

theorem C9_date_range_object_counterexample:
  "hasAnySelections (init_v3\<lparr> qtyA_v3 := scenario_grid \<rparr>)
   \<and> whatsappText menus_bad_dateRange (init_v3\<lparr> qtyA_v3 := scenario_grid \<rparr>) = Inl TypeError
   \<and> onScreenSummaryText menus_bad_dateRange (init_v3\<lparr> qtyA_v3 := scenario_grid \<rparr>)
       = Inl TypeError"
  using hasAnySelections_scenario bad_dateRange by simp

text \<open>
  C9, amended: each formatter is a function of the catalog and the snapshot, and the memo
  cell of \<^verbatim>\<open>useMemo\<close> never shows another result: over any sequence of renders the result
  shown, a string or an exception, is the one of the snapshot rendered, so an unchanged
  snapshot rendered again gives the identical string. Neither formatter raises when the
  date range and the dish names of the menus of the two weeks can be converted to a
  string, as the strings that \<^verbatim>\<open>WeeklyMenu\<close> and \<^verbatim>\<open>MenuItem\<close> declare can, and as the
  values of a week without a menu can. Missing data becomes placeholder text: a session
  without selections gives the empty text, a blank name the line "Name: [name]" in both
  texts, a week without a menu a heading without a date range, and a selected dish of a
  week without a menu the line with "Menu item coming soon.".
\<close>

theorem C9_texts:
  "renders whatsappText None snaps = map (\<lambda>(m, s). whatsappText m s) snaps
   \<and> renders onScreenSummaryText None snaps = map (\<lambda>(m, s). onScreenSummaryText m s) snaps
   \<and> (weekPrintable m (weekA_v3 s) \<and> weekPrintable m (weekB_v3 s) \<longrightarrow>
        (\<exists>t. whatsappText m s = Inr t) \<and> (\<exists>t. onScreenSummaryText m s = Inr t))
   \<and> (getMenuForWeek_v3 m week = JNull \<longrightarrow>
        weekPrintable m week \<and> weekHeading m week = Inr (''Week '' @ pad2 week))
   \<and> (\<not> hasAnySelections s \<longrightarrow> whatsappText m s = Inr [] \<and> onScreenSummaryText m s = Inr [])
   \<and> (hasAnySelections s \<and> trim (name_v3 s) = [] \<longrightarrow>
        (\<forall>t. whatsappText m s = Inr t \<longrightarrow>
           (\<exists>r. t = ''Meal Order'' @ newline @ ''Name: [name]'' @ newline @ r))
      \<and> (\<forall>t. onScreenSummaryText m s = Inr t \<longrightarrow>
           (\<exists>r. t = ''Meal Order'' @ newline @ ''Name: [name]'' @ newline @ r)))
   \<and> (meal \<noteq> LowCarb \<and> 0 < qtyA_v3 s day meal \<and> getMenuForWeek_v3 m (weekA_v3 s) = JNull \<longrightarrow>
        (\<forall>ls. summaryLines m s = Inr ls \<longrightarrow>
           ''- '' @ MealType_str meal @ '': '' @ String_int (qtyA_v3 s day meal)
             @ '' (Menu item coming soon.)'' \<in> set ls))"
proof -
  have p: "weekPrintable m (weekA_v3 s) \<and> weekPrintable m (weekB_v3 s) \<longrightarrow>
        (\<exists>t. whatsappText m s = Inr t) \<and> (\<exists>t. onScreenSummaryText m s = Inr t)"
    using texts_succeed [of m s] by blast
  have w: "getMenuForWeek_v3 m week = JNull \<longrightarrow>
        weekPrintable m week \<and> weekHeading m week = Inr (''Week '' @ pad2 week)"
    using weekPrintable_no_menu [of m week] weekHeading_no_menu [of m week] by blast
  have e: "\<not> hasAnySelections s \<longrightarrow> whatsappText m s = Inr [] \<and> onScreenSummaryText m s = Inr []"
    by (simp add: whatsappText_def onScreenSummaryText_def)
  have n: "hasAnySelections s \<and> trim (name_v3 s) = [] \<longrightarrow>
        (\<forall>t. whatsappText m s = Inr t \<longrightarrow>
           (\<exists>r. t = ''Meal Order'' @ newline @ ''Name: [name]'' @ newline @ r))
      \<and> (\<forall>t. onScreenSummaryText m s = Inr t \<longrightarrow>
           (\<exists>r. t = ''Meal Order'' @ newline @ ''Name: [name]'' @ newline @ r))"
    using whatsappText_head [of s m] onScreenSummaryText_head [of s m]
    by (auto simp: nameLine_def)
  have l: "meal \<noteq> LowCarb \<and> 0 < qtyA_v3 s day meal \<and> getMenuForWeek_v3 m (weekA_v3 s) = JNull \<longrightarrow>
        (\<forall>ls. summaryLines m s = Inr ls \<longrightarrow>
           ''- '' @ MealType_str meal @ '': '' @ String_int (qtyA_v3 s day meal)
             @ '' (Menu item coming soon.)'' \<in> set ls)"
    using summaryLines_placeholder [of meal s day m] by blast
  show ?thesis
    using renders_None [of whatsappText snaps] renders_None [of onScreenSummaryText snaps]
      p w e n l
    by blast
qed

theorem C9_texts_witness:
  "renders onScreenSummaryText None
      [(menus_week1, init_v3\<lparr> qtyA_v3 := scenario_grid \<rparr>),
       (menus_week1, init_v3\<lparr> qtyA_v3 := scenario_grid \<rparr>), (menus_week1, init_v3)]
     = [Inr (join newline [''Meal Order'', ''Name: [name]'', [], ''Week 01 (5-9 Jan)'', ''Monday'',
          ''- Meat: 2 (Beef stew)'', ''Wednesday'', ''- Veg: 1 (Menu item coming soon.)'',
          ''Subtotal: 3 meals '' @ middot @ '' R270.00'', [],
          ''TOTAL: 3 meals '' @ middot @ '' R270.00'']),
        Inr (join newline [''Meal Order'', ''Name: [name]'', [], ''Week 01 (5-9 Jan)'', ''Monday'',
          ''- Meat: 2 (Beef stew)'', ''Wednesday'', ''- Veg: 1 (Menu item coming soon.)'',
          ''Subtotal: 3 meals '' @ middot @ '' R270.00'', [],
          ''TOTAL: 3 meals '' @ middot @ '' R270.00'']),
        Inr []]
   \<and> weekPrintable menus_week1 (weekA_v3 (init_v3\<lparr> qtyA_v3 := scenario_grid \<rparr>))
   \<and> weekPrintable menus_week1 (weekB_v3 (init_v3\<lparr> qtyA_v3 := scenario_grid \<rparr>))
   \<and> (\<exists>t. whatsappText menus_week1 (init_v3\<lparr> qtyA_v3 := scenario_grid \<rparr>) = Inr t)
   \<and> getMenuForWeek_v3 menus_week1 (Num 2) = JNull
   \<and> weekHeading menus_week1 (Num 2) = Inr ''Week 02''
   \<and> \<not> hasAnySelections init_v3
   \<and> hasAnySelections (init_v3\<lparr> qtyA_v3 := scenario_grid \<rparr>)
   \<and> trim (name_v3 (init_v3\<lparr> qtyA_v3 := scenario_grid \<rparr>)) = []
   \<and> (\<exists>r. join newline [''Meal Order'', ''Name: [name]'', [], ''Week 01'', ''Mon: x2 Meat'',
          ''Wed: x1 Veg'', [], ''TOTAL: 3 meals '' @ middot @ '' R270.00'']
        = ''Meal Order'' @ newline @ ''Name: [name]'' @ newline @ r)
   \<and> getMenuForWeek_v3 [] (weekA_v3 (init_v3\<lparr> qtyA_v3 := scenario_grid \<rparr>)) = JNull
   \<and> ''- Meat: 2 (Menu item coming soon.)''
        \<in> set (projr (summaryLines [] (init_v3\<lparr> qtyA_v3 := scenario_grid \<rparr>)))"
proof -
  note A = C9_texts [of
        "[(menus_week1, init_v3\<lparr> qtyA_v3 := scenario_grid \<rparr>),
          (menus_week1, init_v3\<lparr> qtyA_v3 := scenario_grid \<rparr>), (menus_week1, init_v3)]"
        menus_week1 "init_v3\<lparr> qtyA_v3 := scenario_grid \<rparr>" "Num 2" Meat Monday]
  note B = C9_texts [of "[]" menus_week1 init_v3 "Num 2" Meat Monday]
  note C = C9_texts [of "[]" "[]" "init_v3\<lparr> qtyA_v3 := scenario_grid \<rparr>" "Num 1" Meat Monday]
  have z: "\<not> hasAnySelections init_v3"
    using empty_totals_v3 [of init_v3] by (simp add: hasAnySelections_def init_v3_def)
  have t: "trim (name_v3 (init_v3\<lparr> qtyA_v3 := scenario_grid \<rparr>)) = []"
    by (simp add: init_v3_def trim_def)
  have a: "weekA_v3 (init_v3\<lparr> qtyA_v3 := scenario_grid \<rparr>) = Num 1"
    "weekB_v3 (init_v3\<lparr> qtyA_v3 := scenario_grid \<rparr>) = Num 2"
    by (simp_all add: init_v3_def)
  have q: "qtyA_v3 (init_v3\<lparr> qtyA_v3 := scenario_grid \<rparr>) Monday Meat = 2"
    by (simp add: scenario_grid_def)
  have g: "getMenuForWeek_v3 menus_week1 (Num 2) = JNull"
    "getMenuForWeek_v3 [] (weekA_v3 (init_v3\<lparr> qtyA_v3 := scenario_grid \<rparr>)) = JNull"
    by (simp_all add: getMenuForWeek_v3_def menus_week1_def String_number_def String_int_def
        String_nat.simps digit_char_def truthyV_def)
  have s2: "String_int 2 = ''2''" "pad2 (Num 2) = ''02''"
    by (simp_all add: pad2_def padStart2_def String_number_def String_int_def String_nat.simps
        digit_char_def)
  have e: "onScreenSummaryText menus_week1 init_v3 = Inr []"
    using B [THEN conjunct2, THEN conjunct2, THEN conjunct2, THEN conjunct2, THEN conjunct1] z
    by simp
  have r: "renders onScreenSummaryText None
      [(menus_week1, init_v3\<lparr> qtyA_v3 := scenario_grid \<rparr>),
       (menus_week1, init_v3\<lparr> qtyA_v3 := scenario_grid \<rparr>), (menus_week1, init_v3)]
     = [Inr (join newline [''Meal Order'', ''Name: [name]'', [], ''Week 01 (5-9 Jan)'', ''Monday'',
          ''- Meat: 2 (Beef stew)'', ''Wednesday'', ''- Veg: 1 (Menu item coming soon.)'',
          ''Subtotal: 3 meals '' @ middot @ '' R270.00'', [],
          ''TOTAL: 3 meals '' @ middot @ '' R270.00'']),
        Inr (join newline [''Meal Order'', ''Name: [name]'', [], ''Week 01 (5-9 Jan)'', ''Monday'',
          ''- Meat: 2 (Beef stew)'', ''Wednesday'', ''- Veg: 1 (Menu item coming soon.)'',
          ''Subtotal: 3 meals '' @ middot @ '' R270.00'', [],
          ''TOTAL: 3 meals '' @ middot @ '' R270.00'']),
        Inr []]"
    unfolding A [THEN conjunct2, THEN conjunct1] by (simp add: week1_text e)
  have wp: "weekPrintable menus_week1 (weekA_v3 (init_v3\<lparr> qtyA_v3 := scenario_grid \<rparr>))"
    "weekPrintable menus_week1 (weekB_v3 (init_v3\<lparr> qtyA_v3 := scenario_grid \<rparr>))"
    unfolding a using week1 by simp_all
  have p: "\<exists>t. whatsappText menus_week1 (init_v3\<lparr> qtyA_v3 := scenario_grid \<rparr>) = Inr t"
    using A [THEN conjunct2, THEN conjunct2, THEN conjunct1] wp by blast
  have w: "weekHeading menus_week1 (Num 2) = Inr ''Week 02''"
    using A [THEN conjunct2, THEN conjunct2, THEN conjunct2, THEN conjunct1] g(1)
    by (simp add: s2)
  have n: "\<exists>r. join newline [''Meal Order'', ''Name: [name]'', [], ''Week 01'', ''Mon: x2 Meat'',
          ''Wed: x1 Veg'', [], ''TOTAL: 3 meals '' @ middot @ '' R270.00'']
        = ''Meal Order'' @ newline @ ''Name: [name]'' @ newline @ r"
    using C [THEN conjunct2, THEN conjunct2, THEN conjunct2, THEN conjunct2, THEN conjunct2,
        THEN conjunct1] hasAnySelections_scenario t whatsappText_scenario
    by blast
  have l: "''- Meat: 2 (Menu item coming soon.)''
        \<in> set (projr (summaryLines [] (init_v3\<lparr> qtyA_v3 := scenario_grid \<rparr>)))"
    using C [THEN conjunct2, THEN conjunct2, THEN conjunct2, THEN conjunct2, THEN conjunct2,
        THEN conjunct2] g(2) summaryLines_scenario
    by (simp add: q s2 MealType_str_def)
  show ?thesis
    using r wp p g w z hasAnySelections_scenario t n l by blast
qed

end
